theory Spec2Isabelle
  imports Complex_Main "HOL-Library.Sublist" "HOL-Library.Word"
begin

section \<open>Sign correction (\<^verbatim>\<open>correct_signs\<close>, experiment.py lines 230-238)\<close>

text \<open>
  \<^verbatim>\<open>np.array(series)\<close> copies the series (the caller's series is not touched) and
  keeps the type of its numbers, and so does every step of the loop. Two element types
  are modelled, the two that a list of Python numbers or a column read by pandas has:
  \<^verbatim>\<open>float64\<close> first and \<^verbatim>\<open>int64\<close> after it. A series is the list of its
  values.
\<close>

subsection \<open>On an array of \<^verbatim>\<open>float64\<close>\<close>

text \<open>
  A \<^verbatim>\<open>float64\<close> is modelled as a real number: the sum, the product and the comparison
  of the test are read as the exact operations (no rounding, no overflow to an infinity,
  no underflow to zero, no NaN). Negation is exact in \<^verbatim>\<open>float64\<close> as well.
\<close>

text \<open>The test of line 236:
  \<^verbatim>\<open>np.abs(s[i] + s[i + 1]) < thres * np.abs(s[i + 1])\<close>.\<close>

definition flip_condition :: "real \<Rightarrow> real \<Rightarrow> real \<Rightarrow> bool" where
  "flip_condition thres a b = (\<bar>a + b\<bar> < thres * \<bar>b\<bar>)"

text \<open>Line 237, \<^verbatim>\<open>s[k:] *= -1\<close>: every element from position \<open>k\<close> on is negated.\<close>

definition negate_from :: "nat \<Rightarrow> 'a::uminus list \<Rightarrow> 'a list" where
  "negate_from k s = take k s @ map uminus (drop k s)"

text \<open>The body of the loop at index \<open>i\<close>, on the working copy.\<close>

definition correct_signs_step :: "real \<Rightarrow> nat \<Rightarrow> real list \<Rightarrow> real list" where
  "correct_signs_step thres i s =
     (if flip_condition thres (s ! i) (s ! (i + 1)) then negate_from (i + 1) s else s)"

text \<open>
  \<^verbatim>\<open>for i in range(len(s) - 1)\<close>: the indices \<open>0 .. len - 2\<close> in order; for the empty
  series \<^verbatim>\<open>range(-1)\<close> is empty, as is \<open>[0..<0 - 1]\<close>.
\<close>

definition correct_signs_thres :: "real \<Rightarrow> real list \<Rightarrow> real list" where
  "correct_signs_thres thres series =
     fold (correct_signs_step thres) [0..<length series - 1] series"

definition correct_signs :: "real list \<Rightarrow> real list" where
  "correct_signs series = correct_signs_thres (1 / 2) series"

text \<open>
  The scan as the specification words it: at the head of the remaining series, compare
  the current element with its successor; if the test holds, negate everything after the
  current element; then continue with the rest.
\<close>

fun sign_scan :: "real \<Rightarrow> real list \<Rightarrow> real list" where
  "sign_scan thres [] = []"
| "sign_scan thres [a] = [a]"
| "sign_scan thres (a # b # s) =
     a # sign_scan thres (if flip_condition thres a b then map uminus (b # s) else b # s)"

text \<open>A series on which the test holds at no index.\<close>

fun no_flip :: "real \<Rightarrow> real list \<Rightarrow> bool" where
  "no_flip thres (a # b # s) = (\<not> flip_condition thres a b \<and> no_flip thres (b # s))"
| "no_flip thres s = True"


subsection \<open>On an array of \<^verbatim>\<open>int64\<close>\<close>

text \<open>
  An \<^verbatim>\<open>int64\<close> is a word of 64 bits read in two's complement: \<^verbatim>\<open>+\<close> and \<^verbatim>\<open>*= -1\<close>
  wrap around, and the negation of the least value \<open>- 2\<^sup>6\<^sup>3\<close> is that value again.
\<close>

type_synonym int64 = "64 word"

text \<open>The number that an \<^verbatim>\<open>int64\<close> stands for.\<close>

definition int64_value :: "int64 \<Rightarrow> real" where
  "int64_value v = real_of_int (sint v)"

text \<open>\<^verbatim>\<open>np.abs\<close> of an \<^verbatim>\<open>int64\<close> is an \<^verbatim>\<open>int64\<close>: a negative value is negated, with the
  wrap-around of negation.\<close>

definition int64_abs :: "int64 \<Rightarrow> int64" where
  "int64_abs a = (if sint a < 0 then - a else a)"

text \<open>
  The comparison of line 236 has an \<^verbatim>\<open>int64\<close> on its left and, \<^verbatim>\<open>thres\<close> being a float,
  a \<^verbatim>\<open>float64\<close> on its right: both the left side and the factor \<^verbatim>\<open>np.abs(s[i + 1])\<close> are
  converted to \<^verbatim>\<open>float64\<close>. The conversion rounds to the nearest number with a
  significand of 53 bits, a tie going to the even significand; \<open>excess_bits m\<close> is the
  number of bits that \<open>m\<close> has beyond 53. No \<^verbatim>\<open>int64\<close> is out of the range of \<^verbatim>\<open>float64\<close>.
\<close>

function excess_bits :: "nat \<Rightarrow> nat" where
  "excess_bits m = (if m < 2 ^ 53 then 0 else Suc (excess_bits (m div 2)))"
  by pat_completeness auto
termination
proof (relation "measure (\<lambda>m. m)")
  show "wf (measure (\<lambda>m. m))" by simp
next
  fix m :: nat assume "\<not> m < 2 ^ 53"
  then have "0 < m" by (cases "m = 0") simp_all
  then show "(m div 2, m) \<in> measure (\<lambda>m. m)" by simp
qed

declare excess_bits.simps [simp del]

definition float64_of_int :: "int \<Rightarrow> real" where
  "float64_of_int z =
     (let e = excess_bits (nat \<bar>z\<bar>);
          q = \<bar>z\<bar> div 2 ^ e;
          r = \<bar>z\<bar> mod 2 ^ e;
          q' = (if 2 ^ e < 2 * r \<or> (2 * r = 2 ^ e \<and> odd q) then q + 1 else q)
      in real_of_int (sgn z * q' * 2 ^ e))"

text \<open>The test of line 236 on two elements of an \<^verbatim>\<open>int64\<close> array. The product with
  \<^verbatim>\<open>thres\<close> is read as exact, which it is in \<^verbatim>\<open>float64\<close> for the default \<open>0.5\<close>.\<close>

definition flip_condition_int64 :: "real \<Rightarrow> int64 \<Rightarrow> int64 \<Rightarrow> bool" where
  "flip_condition_int64 thres a b =
     (float64_of_int (sint (int64_abs (a + b))) < thres * float64_of_int (sint (int64_abs b)))"

text \<open>The body of the loop, the loop and the function, as for \<^verbatim>\<open>float64\<close>.\<close>

definition correct_signs_step_int64 :: "real \<Rightarrow> nat \<Rightarrow> int64 list \<Rightarrow> int64 list" where
  "correct_signs_step_int64 thres i s =
     (if flip_condition_int64 thres (s ! i) (s ! (i + 1)) then negate_from (i + 1) s else s)"

definition correct_signs_thres_int64 :: "real \<Rightarrow> int64 list \<Rightarrow> int64 list" where
  "correct_signs_thres_int64 thres series =
     fold (correct_signs_step_int64 thres) [0..<length series - 1] series"

definition correct_signs_int64 :: "int64 list \<Rightarrow> int64 list" where
  "correct_signs_int64 series = correct_signs_thres_int64 (1 / 2) series"

text \<open>The scan of the specification with the test and the negation of \<^verbatim>\<open>int64\<close>.\<close>

fun sign_scan_int64 :: "real \<Rightarrow> int64 list \<Rightarrow> int64 list" where
  "sign_scan_int64 thres [] = []"
| "sign_scan_int64 thres [a] = [a]"
| "sign_scan_int64 thres (a # b # s) =
     a # sign_scan_int64 thres
           (if flip_condition_int64 thres a b then map uminus (b # s) else b # s)"

text \<open>The values that \<^verbatim>\<open>float64\<close> holds exactly and that no sum of two of them takes out
  of that range: below \<open>2\<^sup>5\<^sup>2\<close> in absolute value.\<close>

definition small_int64 :: "int64 \<Rightarrow> bool" where
  "small_int64 v = (\<bar>sint v\<bar> < 2 ^ 52)"


section \<open>Python values and errors\<close>

text \<open>
  Every \<^verbatim>\<open>IndexError\<close> of the code is the same Python exception; the model records
  the place that raises it, as the traceback does.
\<close>

datatype index_site =
    RowLabel            \<comment> \<open>\<^verbatim>\<open>self.dataframe.index[0]\<close> on a table without rows (line 51)\<close>
  | ColumnPosition      \<comment> \<open>\<^verbatim>\<open>self.dataframe.iloc[:, col]\<close> (lines 114, 116)\<close>
  | ExperimentsList     \<comment> \<open>\<^verbatim>\<open>self.experiments[0]\<close> (lines 149, 180, 210)\<close>
  | SchemaList          \<comment> \<open>\<^verbatim>\<open>.columns[col]\<close> (lines 149, 180, 210)\<close>
  | FirstMers           \<comment> \<open>\<^verbatim>\<open>first_mers[-1]\<close> (line 204)\<close>
  | RealisationSlot     \<comment> \<open>\<^verbatim>\<open>entropies[i][j]\<close> (line 219)\<close>

datatype py_error =
    IndexError index_site
  | AssertionError string
  | KeyError string
  | FileNotFoundError string

text \<open>What a function hands back: \<^verbatim>\<open>None\<close>, a float, a list or a tuple.\<close>

datatype 'a pyvalue = PyNone | PyFloat 'a | PyList "'a pyvalue list" | PyTuple "'a pyvalue list"

text \<open>Indexing a Python list: a negative index counts from the end.\<close>

definition py_index :: "'a list \<Rightarrow> int \<Rightarrow> 'a option" where
  "py_index xs i =
     (let n = int (length xs); j = (if i < 0 then n + i else i)
      in if 0 \<le> j \<and> j < n then Some (xs ! nat j) else None)"

text \<open>A list comprehension over a function that may raise: the first error wins.\<close>

fun map_raise :: "('a \<Rightarrow> 'e + 'b) \<Rightarrow> 'a list \<Rightarrow> 'e + 'b list" where
  "map_raise f [] = Inr []"
| "map_raise f (x # xs) =
     (case f x of
        Inl e \<Rightarrow> Inl e
      | Inr y \<Rightarrow> (case map_raise f xs of Inl e \<Rightarrow> Inl e | Inr ys \<Rightarrow> Inr (y # ys)))"

text \<open>\<^verbatim>\<open>str(n)\<close> of a non-negative integer: its decimal digits.\<close>

definition digit_char :: "nat \<Rightarrow> char" where
  "digit_char d = char_of (48 + d)"

fun str_nat :: "nat \<Rightarrow> string" where
  "str_nat n =
     (if n < 10 then [digit_char n] else str_nat (n div 10) @ [digit_char (n mod 10)])"

declare str_nat.simps [simp del]

text \<open>\<^verbatim>\<open>os.path.join(a, b)\<close> of two components (POSIX).\<close>

definition os_path_join :: "string \<Rightarrow> string \<Rightarrow> string" where
  "os_path_join a b =
     (if b \<noteq> [] \<and> hd b = CHR ''/'' then b
      else if a = [] \<or> last a = CHR ''/'' then a @ b
      else a @ ''/'' @ b)"

section \<open>The column schema (\<^verbatim>\<open>Experiment.__init__\<close>, lines 21-44)\<close>

record ColumnMeaning =
  description :: string
  unit :: string

text \<open>
  The angle names of lines 35 and 41 are Greek letters with subscript digits; a
  \<open>string\<close> holds them as their UTF-8 bytes (two strings are equal, or one occurs in the
  other, exactly when that holds of their code points).
\<close>

definition phi14 :: string where
  "phi14 = [CHR 0xCF, CHR 0x95, CHR 0xE2, CHR 0x82, CHR 0x81, CHR 0xE2, CHR 0x82, CHR 0x84]"

definition psi14 :: string where
  "psi14 = [CHR 0xCF, CHR 0x88, CHR 0xE2, CHR 0x82, CHR 0x81, CHR 0xE2, CHR 0x82, CHR 0x84]"

definition phi13 :: string where
  "phi13 = [CHR 0xCF, CHR 0x95, CHR 0xE2, CHR 0x82, CHR 0x81, CHR 0xE2, CHR 0x82, CHR 0x83]"

definition psi13 :: string where
  "psi13 = [CHR 0xCF, CHR 0x88, CHR 0xE2, CHR 0x82, CHR 0x81, CHR 0xE2, CHR 0x82, CHR 0x83]"

definition gamma_angle :: string where
  "gamma_angle = [CHR 0xCE, CHR 0xB3]"

definition omega_angle :: string where
  "omega_angle = [CHR 0xCF, CHR 0x89]"

definition delta_angle :: string where
  "delta_angle = [CHR 0xCE, CHR 0xB4]"

definition angles_main_chain :: "string list" where
  "angles_main_chain = [phi14, psi14, phi13, psi13]"

definition angles_side_chain :: "string list" where
  "angles_side_chain = [gamma_angle, omega_angle, delta_angle]"

text \<open>\<^verbatim>\<open>f"{angle} mers {mer+1}, {mer+2}"\<close>, for the loop variable \<open>mer\<close> of
  \<^verbatim>\<open>range(23)\<close>.\<close>

definition mer_description :: "string \<Rightarrow> nat \<Rightarrow> string" where
  "mer_description angle mer =
     angle @ '' mers '' @ str_nat (mer + 1) @ '', '' @ str_nat (mer + 2)"

definition angle_column :: "string \<Rightarrow> nat \<Rightarrow> ColumnMeaning" where
  "angle_column angle mer = \<lparr>description = mer_description angle mer, unit = ''deg''\<rparr>"

definition energy_columns :: "ColumnMeaning list" where
  "energy_columns =
    [\<lparr>description = ''Time'', unit = ''ps''\<rparr>,
     \<lparr>description = ''Total energy of the system'', unit = ''kJ/mol''\<rparr>,
     \<lparr>description = ''Total bond energy'', unit = ''kJ/mol''\<rparr>,
     \<lparr>description = ''Total angle energy'', unit = ''kJ/mol''\<rparr>,
     \<lparr>description = ''Total dihedral energy'', unit = ''kJ/mol''\<rparr>,
     \<lparr>description = ''Total planar energy'', unit = ''kJ/mol''\<rparr>,
     \<lparr>description = ''Total Coulomb energy'', unit = ''kJ/mol''\<rparr>,
     \<lparr>description = ''Total Van der Waals energy'', unit = ''kJ/mol''\<rparr>]"

text \<open>
  Lines 24-44. The main chain appends mer by mer, the four angles of a mer side by side;
  the side chain appends angle by angle, the 23 mers of an angle side by side. A chain
  that is neither string gets the eight fixed columns only (there is no \<^verbatim>\<open>else\<close>).
\<close>

definition Experiment_columns :: "string \<Rightarrow> ColumnMeaning list" where
  "Experiment_columns chain = energy_columns @
     (if chain = ''main chain'' then
        concat (map (\<lambda>mer. map (\<lambda>angle. angle_column angle mer) angles_main_chain) [0..<23])
      else if chain = ''side chain'' then
        concat (map (\<lambda>angle. map (\<lambda>mer. angle_column angle mer) [0..<23]) angles_side_chain)
      else [])"

text \<open>Line 23: \<^verbatim>\<open>'side chain' if 'sidechain' in filepath else 'main chain'\<close>.\<close>

definition chain_of_filepath :: "string \<Rightarrow> string" where
  "chain_of_filepath filepath =
     (if sublist ''sidechain'' filepath then ''side chain'' else ''main chain'')"

section \<open>The table of a run\<close>

text \<open>
  The data frame, as \<^verbatim>\<open>pd.read_csv\<close> builds it: a number of columns and the rows in
  file order, each row with its label in the index of the frame and one number per
  column. A label is a value of any type \<open>'l\<close>, compared by equality. \<^verbatim>\<open>read_csv\<close>
  numbers the rows \<open>0, 1, 2, \<dots>\<close>, unless the lines of the file hold one field more than
  its header: then the first field of a line is the label of its row, and two rows can
  carry the same label.
\<close>

record 'l dataframe =
  ncols :: nat
  rows :: "('l \<times> real list) list"

text \<open>\<^verbatim>\<open>df.index\<close>: the labels of the rows, in order.\<close>

definition row_labels :: "'l dataframe \<Rightarrow> 'l list" where
  "row_labels df = map fst (rows df)"

text \<open>The default index of \<^verbatim>\<open>read_csv\<close>: row \<open>k\<close> has the label \<open>k\<close>.\<close>

definition range_index :: "real list list \<Rightarrow> (nat \<times> real list) list" where
  "range_index rs = zip [0..<length rs] rs"

text \<open>\<^verbatim>\<open>df.drop(index=label, axis=0, inplace=True)\<close>: every row that carries the label
  goes, the other rows stay in order.\<close>

definition drop_index :: "'l \<Rightarrow> 'l dataframe \<Rightarrow> 'l dataframe" where
  "drop_index label df = df\<lparr>rows := filter (\<lambda>row. fst row \<noteq> label) (rows df)\<rparr>"

text \<open>\<^verbatim>\<open>df.iloc[:, col]\<close>: the column at a position, counted from the end when negative.\<close>

definition iloc_column :: "'l dataframe \<Rightarrow> int \<Rightarrow> py_error + real list" where
  "iloc_column df col =
     (let n = int (ncols df); j = (if col < 0 then n + col else col)
      in if 0 \<le> j \<and> j < n then Inr (map (\<lambda>r. snd r ! nat j) (rows df))
         else Inl (IndexError ColumnPosition))"

record 'l Experiment =
  dataframe :: "'l dataframe"
  chain :: string
  columns :: "ColumnMeaning list"

text \<open>
  The constructor. Reading the file is the caller's \<open>read_csv\<close>, which gives the table
  or the error that \<^verbatim>\<open>pd.read_csv\<close> raises.
\<close>

definition Experiment_init ::
    "(string \<Rightarrow> py_error + 'l dataframe) \<Rightarrow> string \<Rightarrow> py_error + 'l Experiment" where
  "Experiment_init read_csv filepath =
     (case read_csv filepath of
        Inl e \<Rightarrow> Inl e
      | Inr df \<Rightarrow>
          Inr \<lparr>dataframe = df, chain = chain_of_filepath filepath,
               columns = Experiment_columns (chain_of_filepath filepath)\<rparr>)"

text \<open>
  Line 51, \<^verbatim>\<open>self.dataframe.drop(index=self.dataframe.index[0], axis=0, inplace=True)\<close>:
  \<^verbatim>\<open>index[0]\<close> raises on a table without rows; otherwise the rows that carry the label of
  the first row are dropped, the first row among them.
\<close>

definition drop_first_observations :: "'l Experiment \<Rightarrow> py_error + 'l Experiment" where
  "drop_first_observations self =
     (case row_labels (dataframe self) of
        [] \<Rightarrow> Inl (IndexError RowLabel)
      | label # _ \<Rightarrow> Inr (self\<lparr>dataframe := drop_index label (dataframe self)\<rparr>))"

section \<open>Floating-point values of numpy\<close>

text \<open>
  A float of numpy is a number, an infinity or NaN. Finite arithmetic is exact in the
  model (no rounding, no overflow, one zero); what is kept of IEEE arithmetic is where a
  result stops being a number: \<open>0 / 0\<close>, \<open>x / 0\<close>, \<open>\<infinity> - \<infinity>\<close>, \<open>0 * \<infinity>\<close> and every
  operation on NaN.
\<close>

datatype npfloat = Num real | PosInf | NegInf | NaN

fun np_add :: "npfloat \<Rightarrow> npfloat \<Rightarrow> npfloat" where
  "np_add (Num a) (Num b) = Num (a + b)"
| "np_add NaN _ = NaN"
| "np_add _ NaN = NaN"
| "np_add PosInf NegInf = NaN"
| "np_add NegInf PosInf = NaN"
| "np_add PosInf _ = PosInf"
| "np_add _ PosInf = PosInf"
| "np_add NegInf _ = NegInf"
| "np_add _ NegInf = NegInf"

fun np_neg :: "npfloat \<Rightarrow> npfloat" where
  "np_neg (Num a) = Num (- a)"
| "np_neg PosInf = NegInf"
| "np_neg NegInf = PosInf"
| "np_neg NaN = NaN"

definition np_sub :: "npfloat \<Rightarrow> npfloat \<Rightarrow> npfloat" where
  "np_sub a b = np_add a (np_neg b)"

text \<open>The infinity with the sign of \<open>a\<close>, for \<open>a \<noteq> 0\<close>.\<close>

definition inf_of_sign :: "real \<Rightarrow> npfloat" where
  "inf_of_sign a = (if 0 < a then PosInf else NegInf)"

fun np_mul :: "npfloat \<Rightarrow> npfloat \<Rightarrow> npfloat" where
  "np_mul (Num a) (Num b) = Num (a * b)"
| "np_mul NaN _ = NaN"
| "np_mul _ NaN = NaN"
| "np_mul (Num a) PosInf = (if a = 0 then NaN else inf_of_sign a)"
| "np_mul (Num a) NegInf = (if a = 0 then NaN else inf_of_sign (- a))"
| "np_mul PosInf (Num b) = (if b = 0 then NaN else inf_of_sign b)"
| "np_mul NegInf (Num b) = (if b = 0 then NaN else inf_of_sign (- b))"
| "np_mul PosInf PosInf = PosInf"
| "np_mul NegInf NegInf = PosInf"
| "np_mul PosInf NegInf = NegInf"
| "np_mul NegInf PosInf = NegInf"

fun np_div :: "npfloat \<Rightarrow> npfloat \<Rightarrow> npfloat" where
  "np_div (Num a) (Num b) =
     (if b \<noteq> 0 then Num (a / b) else if a = 0 then NaN else inf_of_sign a)"
| "np_div NaN _ = NaN"
| "np_div _ NaN = NaN"
| "np_div (Num a) _ = Num 0"
| "np_div PosInf (Num b) = (if 0 \<le> b then PosInf else NegInf)"
| "np_div NegInf (Num b) = (if 0 \<le> b then NegInf else PosInf)"
| "np_div _ _ = NaN"

text \<open>\<^verbatim>\<open>sum(v)\<close> and \<^verbatim>\<open>np.sum(v)\<close>: the elements added up from 0.\<close>

definition np_sum :: "npfloat list \<Rightarrow> npfloat" where
  "np_sum v = foldl np_add (Num 0) v"

section \<open>The libraries' functions that \<^verbatim>\<open>get_entropy\<close> calls\<close>

subsection \<open>\<^verbatim>\<open>np.histogram2d(x, y, bins=10)\<close>\<close>

text \<open>
  The outer edges of one axis: the least and the greatest value; \<open>0\<close> and \<open>1\<close> for no
  values at all; widened by a half on either side when the two coincide.
\<close>

definition outer_edges :: "real list \<Rightarrow> real \<times> real" where
  "outer_edges a =
     (if a = [] then (0, 1)
      else let first_edge = Min (set a); last_edge = Max (set a)
           in if first_edge = last_edge then (first_edge - 1 / 2, last_edge + 1 / 2)
              else (first_edge, last_edge))"

definition linspace :: "real \<Rightarrow> real \<Rightarrow> nat \<Rightarrow> real list" where
  "linspace start stop num =
     map (\<lambda>k. start + real k * ((stop - start) / real (num - 1))) [0..<num]"

definition bin_edges :: "real list \<Rightarrow> real list" where
  "bin_edges a = (case outer_edges a of (first_edge, last_edge) \<Rightarrow> linspace first_edge last_edge 11)"

text \<open>
  \<^verbatim>\<open>np.searchsorted(edges, v, side='right')\<close> on ascending edges: how many edges are
  at most \<open>v\<close>. A value on the last edge is moved one bin to the left. The numbers
  \<open>1 .. 10\<close> are the ten bins; \<open>0\<close> and \<open>11\<close> would be outliers.
\<close>

definition searchsorted_right :: "real list \<Rightarrow> real \<Rightarrow> nat" where
  "searchsorted_right edges v = length (filter (\<lambda>e. e \<le> v) edges)"

definition bin_number :: "real list \<Rightarrow> real \<Rightarrow> nat" where
  "bin_number edges v =
     (if v = last edges then searchsorted_right edges v - 1 else searchsorted_right edges v)"

text \<open>The bin counts, as floats: row \<open>i\<close> is the \<open>i\<close>-th bin of \<open>x\<close>, outliers cut off.\<close>

definition histogram2d :: "real list \<Rightarrow> real list \<Rightarrow> real list list" where
  "histogram2d x y =
     (let Ncount = zip (map (bin_number (bin_edges x)) x) (map (bin_number (bin_edges y)) y)
      in map (\<lambda>i. map (\<lambda>j. real (count_list Ncount (i, j))) [1..<11]) [1..<11])"

subsection \<open>\<^verbatim>\<open>scipy.stats.entropy(pk)\<close>\<close>

text \<open>\<^verbatim>\<open>scipy.special.entr\<close>: \<open>- x ln x\<close> for positive \<open>x\<close>, \<open>0\<close> at \<open>0\<close>, \<open>-\<infinity>\<close> below.\<close>

fun entr :: "npfloat \<Rightarrow> npfloat" where
  "entr (Num x) = (if 0 < x then Num (- x * ln x) else if x = 0 then Num 0 else NegInf)"
| "entr NaN = NaN"
| "entr _ = NegInf"

text \<open>\<^verbatim>\<open>pk = 1.0*pk / np.sum(pk); vec = entr(pk); S = np.sum(vec)\<close>, natural logarithm.\<close>

definition entropy :: "npfloat list \<Rightarrow> npfloat" where
  "entropy pk = (let s = np_sum pk in np_sum (map (\<lambda>p. entr (np_div p s)) pk))"

section \<open>The entropy of one run (\<^verbatim>\<open>Experiment.get_entropy\<close>, lines 109-123)\<close>

text \<open>Lines 119-123, from the two corrected columns on.\<close>

definition entropy_of_histogram :: "real list list \<Rightarrow> npfloat" where
  "entropy_of_histogram h =
     (let h_vec = map Num (concat h);
          total = np_sum h_vec;
          h_norm = map (\<lambda>c. np_div c total) h_vec
      in np_mul (Num (8314 / 1000)) (entropy h_norm))"

text \<open>
  The call changes the run (the rows with the label of the first row go) and returns a
  float or raises; the pair is the run after the call and the outcome. A column index
  out of range raises after the rows have gone. The columns of the table are of type
  \<^verbatim>\<open>float64\<close>.
\<close>

definition get_entropy ::
    "'l Experiment \<Rightarrow> int \<Rightarrow> int \<Rightarrow> 'l Experiment \<times> (py_error + npfloat)" where
  "get_entropy self xcol ycol =
     (case drop_first_observations self of
        Inl e \<Rightarrow> (self, Inl e)
      | Inr self' \<Rightarrow>
          (self',
           case iloc_column (dataframe self') ycol of
             Inl e \<Rightarrow> Inl e
           | Inr y \<Rightarrow>
               (case iloc_column (dataframe self') xcol of
                  Inl e \<Rightarrow> Inl e
                | Inr x \<Rightarrow>
                    Inr (entropy_of_histogram
                           (histogram2d (correct_signs x) (correct_signs y))))))"

text \<open>The natural-logarithm Shannon entropy of a probability mass function, a bin of
  mass \<open>0\<close> adding nothing.\<close>

definition shannon_entropy :: "real list \<Rightarrow> real" where
  "shannon_entropy pmf = - (\<Sum>p\<leftarrow>pmf. if p = 0 then 0 else p * ln p)"

text \<open>The mass function of a vector of counts: each count over the total.\<close>

definition normalise :: "real list \<Rightarrow> real list" where
  "normalise counts = map (\<lambda>c. c / sum_list counts) counts"

text \<open>\<open>k\<close> calls in a row on the same run, with any column pairs: the run after them.\<close>

definition get_entropy_calls :: "'l Experiment \<Rightarrow> (int \<times> int) list \<Rightarrow> 'l Experiment" where
  "get_entropy_calls self calls = fold (\<lambda>(xcol, ycol) e. fst (get_entropy e xcol ycol)) calls self"

section \<open>A run whose histogram is uniform\<close>






section \<open>A file system with one table\<close>

text \<open>A reader that finds the same two-row table under every path.\<close>

definition two_row_table :: "nat dataframe" where
  "two_row_table = \<lparr>ncols = 2, rows = [(0, [0, 0]), (1, [1, 2])]\<rparr>"

definition read_two_rows :: "string \<Rightarrow> py_error + nat dataframe" where
  "read_two_rows filepath = Inr two_row_table"

text \<open>A reader that finds no file.\<close>

definition read_no_file :: "string \<Rightarrow> py_error + nat dataframe" where
  "read_no_file filepath = Inl (FileNotFoundError filepath)"

section \<open>A table whose lines carry their own labels\<close>

text \<open>
  A table of three rows and two columns, read from a file whose lines hold one field
  more than the header: the first field of a line is the label of its row, and the
  first two lines start with the same field.
\<close>

definition repeated_label_table :: "nat dataframe" where
  "repeated_label_table = \<lparr>ncols = 2, rows = [(1, [1, 2]), (1, [3, 4]), (2, [5, 6])]\<rparr>"

definition repeated_label_run :: "nat Experiment" where
  "repeated_label_run = \<lparr>dataframe = repeated_label_table, chain = ''main chain'',
                          columns = Experiment_columns ''main chain''\<rparr>"

text \<open>A table of two columns that has no row.\<close>

definition no_row_run :: "nat Experiment" where
  "no_row_run = \<lparr>dataframe = \<lparr>ncols = 2, rows = []\<rparr>, chain = ''main chain'',
                  columns = Experiment_columns ''main chain''\<rparr>"

section \<open>The set of runs (\<^verbatim>\<open>SetOfExperiments\<close>, lines 126-228)\<close>

text \<open>Lines 131-132, the class attribute \<^verbatim>\<open>magic_numbers\<close>.\<close>

definition magic_numbers :: "string \<rightharpoonup> nat" where
  "magic_numbers = [''analysis'' \<mapsto> 4, ''sidechain'' \<mapsto> 1]"

text \<open>The field \<open>chain_type\<close> is \<^verbatim>\<open>self.chain\<close> of the set (the name \<open>chain\<close> is the run's).\<close>

record 'l SetOfExperiments =
  partial_path :: string
  ion :: string
  chain_type :: string
  no_experiments :: int
  magic_number :: nat
  experiments :: "'l Experiment list"

text \<open>\<^verbatim>\<open>f"{experiment_prefix}_{i+1}_{chain}_{ion}.tab"\<close> for \<open>i\<close> of \<^verbatim>\<open>range(no_experiments)\<close>.\<close>

definition experiment_file_names :: "string \<Rightarrow> string \<Rightarrow> string \<Rightarrow> int \<Rightarrow> string list" where
  "experiment_file_names experiment_prefix ion_name chain_name n =
     map (\<lambda>i. experiment_prefix @ ''_'' @ str_nat (i + 1) @ ''_'' @ chain_name @ ''_'' @ ion_name
               @ ''.tab'')
       [0..<nat n]"

text \<open>
  Lines 134-142. The assertion comes before anything is read; the look-up of the magic
  number cannot miss once it has passed.
\<close>

definition SetOfExperiments_init ::
    "(string \<Rightarrow> py_error + 'l dataframe) \<Rightarrow> string \<Rightarrow> string \<Rightarrow> string \<Rightarrow> string \<Rightarrow> int
      \<Rightarrow> py_error + 'l SetOfExperiments" where
  "SetOfExperiments_init read_csv data_path experiment_prefix ion_name chain_name n =
     (if chain_name \<notin> set [''analysis'', ''sidechain'']
      then Inl (AssertionError (''Incorrect chain type: '' @ chain_name))
      else case magic_numbers chain_name of
        None \<Rightarrow> Inl (KeyError chain_name)
      | Some k \<Rightarrow>
          (case map_raise (\<lambda>fp. Experiment_init read_csv (os_path_join data_path fp))
                  (experiment_file_names experiment_prefix ion_name chain_name n) of
             Inl e \<Rightarrow> Inl e
           | Inr es \<Rightarrow>
               Inr \<lparr>partial_path = os_path_join data_path (experiment_prefix @ ''_''),
                    ion = ion_name, chain_type = chain_name, no_experiments = n,
                    magic_number = k, experiments = es\<rparr>))"

text \<open>
  Line 146, \<^verbatim>\<open>[experiment.get_entropy(xcol, ycol) for experiment in self.experiments]\<close>:
  the runs are called in order and each is changed by its call; at the first error the
  runs after it have not been called.
\<close>

fun get_entropies ::
    "'l Experiment list \<Rightarrow> int \<Rightarrow> int \<Rightarrow> 'l Experiment list \<times> (py_error + npfloat list)" where
  "get_entropies [] xcol ycol = ([], Inr [])"
| "get_entropies (e # es) xcol ycol =
     (case get_entropy e xcol ycol of
        (e', Inl err) \<Rightarrow> (e' # es, Inl err)
      | (e', Inr v) \<Rightarrow>
          (case get_entropies es xcol ycol of
             (es', Inl err) \<Rightarrow> (e' # es', Inl err)
           | (es', Inr vs) \<Rightarrow> (e' # es', Inr (v # vs))))"

text \<open>\<^verbatim>\<open>self.experiments[0].columns[col].description\<close>, the label of a plot.\<close>

definition column_description :: "'l SetOfExperiments \<Rightarrow> int \<Rightarrow> py_error + string" where
  "column_description self col =
     (case experiments self of
        [] \<Rightarrow> Inl (IndexError ExperimentsList)
      | e # _ \<Rightarrow>
          (case py_index (columns e) col of
             None \<Rightarrow> Inl (IndexError SchemaList)
           | Some c \<Rightarrow> Inr (description c)))"

text \<open>
  Lines 144-164. \<^verbatim>\<open>if plotdir:\<close> holds for a plot directory that is given and is not the
  empty string; then the two labels are looked up before the plot is drawn. The drawing
  itself is not modelled.
\<close>

definition hist_of_entropy ::
    "'l SetOfExperiments \<Rightarrow> int \<Rightarrow> int \<Rightarrow> string option
      \<Rightarrow> 'l SetOfExperiments \<times> (py_error + npfloat list)" where
  "hist_of_entropy self xcol ycol plotdir =
     (case get_entropies (experiments self) xcol ycol of
        (es', Inl err) \<Rightarrow> (self\<lparr>experiments := es'\<rparr>, Inl err)
      | (es', Inr entropies) \<Rightarrow>
          (self\<lparr>experiments := es'\<rparr>,
           if plotdir = None \<or> plotdir = Some []
           then Inr entropies
           else
             (case column_description (self\<lparr>experiments := es'\<rparr>) xcol of
                Inl err \<Rightarrow> Inl err
              | Inr xdesc \<Rightarrow>
                  (case column_description (self\<lparr>experiments := es'\<rparr>) ycol of
                     Inl err \<Rightarrow> Inl err
                   | Inr ydesc \<Rightarrow> Inr entropies))))"

subsection \<open>\<^verbatim>\<open>np.median\<close> and \<^verbatim>\<open>np.percentile\<close>\<close>

text \<open>The order of the floats that are not NaN, and sorting by it.\<close>

fun np_le :: "npfloat \<Rightarrow> npfloat \<Rightarrow> bool" where
  "np_le NegInf _ = True"
| "np_le _ PosInf = True"
| "np_le (Num a) (Num b) = (a \<le> b)"
| "np_le _ _ = False"

fun np_insort :: "npfloat \<Rightarrow> npfloat list \<Rightarrow> npfloat list" where
  "np_insort x [] = [x]"
| "np_insort x (y # ys) = (if np_le x y then x # y # ys else y # np_insort x ys)"

definition np_sort :: "npfloat list \<Rightarrow> npfloat list" where
  "np_sort a = foldr np_insort a []"

text \<open>
  \<^verbatim>\<open>np.median(a)\<close>: NaN for no values or when a value is NaN; else the middle value of
  the sorted values, or the mean of the two middle values.
\<close>

definition np_median :: "npfloat list \<Rightarrow> npfloat" where
  "np_median a =
     (if a = [] \<or> NaN \<in> set a then NaN
      else let part = np_sort a; index = length a div 2
           in if odd (length a) then part ! index
              else np_div (np_add (part ! (index - 1)) (part ! index)) (Num 2))"

text \<open>numpy's linear interpolation between two neighbours.\<close>

definition np_lerp :: "npfloat \<Rightarrow> npfloat \<Rightarrow> real \<Rightarrow> npfloat" where
  "np_lerp a b t =
     (let diff_b_a = np_sub b a
      in if 1 / 2 \<le> t then np_sub b (np_mul diff_b_a (Num (1 - t)))
         else np_add a (np_mul diff_b_a (Num t)))"

text \<open>
  \<^verbatim>\<open>np.percentile(a, q)\<close> with the default method \<^verbatim>\<open>'linear'\<close>, for \<open>0 \<le> q \<le> 100\<close>:
  the virtual index is \<open>(n - 1) * q / 100\<close>; its two neighbours in the sorted values
  are interpolated; at or beyond the last index both neighbours are the last value.
  A NaN among the values gives NaN. For no values the model gives NaN as well (the
  callers then raise on \<^verbatim>\<open>self.experiments[0]\<close> in any case).
\<close>

definition np_percentile :: "npfloat list \<Rightarrow> real \<Rightarrow> npfloat" where
  "np_percentile a q =
     (if a = [] \<or> NaN \<in> set a then NaN
      else let arr = np_sort a;
               virtual_index = real (length a - 1) * (q / 100);
               previous_index = nat \<lfloor>virtual_index\<rfloor>
           in if real (length a - 1) \<le> virtual_index
              then np_lerp (last arr) (last arr) (virtual_index + 1)
              else np_lerp (arr ! previous_index) (arr ! (previous_index + 1))
                     (virtual_index - real previous_index))"

text \<open>
  The percentile of the specification, on numbers: the position \<open>(n - 1) * q / 100\<close> in
  the sorted values, interpolated linearly between the two values around it.
\<close>

definition linear_percentile :: "real list \<Rightarrow> real \<Rightarrow> real" where
  "linear_percentile a q =
     (let s = sort a;
          pos = real (length a - 1) * (q / 100);
          lo = nat \<lfloor>pos\<rfloor>;
          hi = min (lo + 1) (length a - 1)
      in s ! lo + (s ! hi - s ! lo) * (pos - real lo))"

subsection \<open>Percentile mode (\<^verbatim>\<open>entropy_distribution_percentiles\<close>, lines 166-198)\<close>

text \<open>
  The loop of lines 174-178 over the mers still to do, with the three lists built so
  far. The runs are changed by every call; an error ends the loop.
\<close>

fun percentiles_loop ::
    "'l SetOfExperiments \<Rightarrow> int \<Rightarrow> int \<Rightarrow> nat list
      \<Rightarrow> npfloat list \<times> npfloat list \<times> npfloat list
      \<Rightarrow> 'l SetOfExperiments \<times> (py_error + npfloat list \<times> npfloat list \<times> npfloat list)" where
  "percentiles_loop self xcol ycol [] acc = (self, Inr acc)"
| "percentiles_loop self xcol ycol (mer # mers) (median_entropy, entropy_perc5, entropy_perc95) =
     (case hist_of_entropy self (xcol + int (magic_number self * mer))
             (ycol + int (magic_number self * mer)) None of
        (self', Inl err) \<Rightarrow> (self', Inl err)
      | (self', Inr entropies) \<Rightarrow>
          percentiles_loop self' xcol ycol mers
            (median_entropy @ [np_median entropies],
             entropy_perc5 @ [np_percentile entropies 5],
             entropy_perc95 @ [np_percentile entropies 95]))"

text \<open>
  The whole call: the loop, the two labels of the plot, then the plot of the three
  lists (not modelled) and \<^verbatim>\<open>return median_entropy\<close>.
\<close>

definition entropy_distribution_percentiles ::
    "'l SetOfExperiments \<Rightarrow> int \<Rightarrow> int \<Rightarrow> int
      \<Rightarrow> 'l SetOfExperiments \<times> (py_error + npfloat pyvalue)" where
  "entropy_distribution_percentiles self xcol ycol no_mers =
     (case percentiles_loop self xcol ycol [0..<nat no_mers] ([], [], []) of
        (self', Inl err) \<Rightarrow> (self', Inl err)
      | (self', Inr (median_entropy, entropy_perc5, entropy_perc95)) \<Rightarrow>
          (self',
           case column_description self' xcol of
             Inl err \<Rightarrow> Inl err
           | Inr xdesc \<Rightarrow>
               (case column_description self' ycol of
                  Inl err \<Rightarrow> Inl err
                | Inr ydesc \<Rightarrow> Inr (PyList (map PyFloat median_entropy)))))"

text \<open>
  The entropies mer by mer, as both modes compute them: mer \<open>m\<close> at the columns
  \<open>xcol + m * magic_number\<close> and \<open>ycol + m * magic_number\<close>, on the runs as the mers
  before it left them.
\<close>

fun entropies_by_mer ::
    "'l SetOfExperiments \<Rightarrow> int \<Rightarrow> int \<Rightarrow> nat list
      \<Rightarrow> 'l SetOfExperiments \<times> (py_error + npfloat list list)" where
  "entropies_by_mer self xcol ycol [] = (self, Inr [])"
| "entropies_by_mer self xcol ycol (mer # mers) =
     (case hist_of_entropy self (xcol + int (magic_number self * mer))
             (ycol + int (magic_number self * mer)) None of
        (self', Inl err) \<Rightarrow> (self', Inl err)
      | (self', Inr entropies) \<Rightarrow>
          (case entropies_by_mer self' xcol ycol mers of
             (self'', Inl err) \<Rightarrow> (self'', Inl err)
           | (self'', Inr rest) \<Rightarrow> (self'', Inr (entropies # rest))))"

subsection \<open>Realisation mode (\<^verbatim>\<open>entropy_distribution_realisations\<close>, lines 200-228)\<close>





section \<open>A set of two runs\<close>

text \<open>The set that the constructor builds from the reader of the two-row table.\<close>

definition two_row_run :: "nat Experiment" where
  "two_row_run = \<lparr>dataframe = two_row_table, chain = ''main chain'',
                   columns = Experiment_columns ''main chain''\<rparr>"

definition two_runs :: "nat SetOfExperiments" where
  "two_runs = \<lparr>partial_path = ''data/run_'', ion = ''Ca'', chain_type = ''analysis'',
                no_experiments = 2, magic_number = 4,
                experiments = [two_row_run, two_row_run]\<rparr>"

text \<open>The same runs after one call of \<^verbatim>\<open>get_entropy\<close> on each.\<close>

definition one_row_run :: "nat Experiment" where
  "one_row_run = \<lparr>dataframe = \<lparr>ncols = 2, rows = [(1, [1, 2])]\<rparr>, chain = ''main chain'',
                   columns = Experiment_columns ''main chain''\<rparr>"

definition two_runs_after :: "nat SetOfExperiments" where
  "two_runs_after = two_runs\<lparr>experiments := [one_row_run, one_row_run]\<rparr>"

section \<open>Properties of the sign correction\<close>

lemma correct_signs_step_Suc:
  "correct_signs_step thres (Suc i) (a # s) = a # correct_signs_step thres i s"
  by (simp add: correct_signs_step_def negate_from_def)

lemma fold_step_Suc:
  "fold (correct_signs_step thres) (map Suc is) (a # s) =
     a # fold (correct_signs_step thres) is s"
  by (induction "is" arbitrary: s) (simp_all add: correct_signs_step_Suc)

lemma correct_signs_step_0:
  "correct_signs_step thres 0 (a # b # s) =
     a # (if flip_condition thres a b then map uminus (b # s) else b # s)"
  by (simp add: correct_signs_step_def negate_from_def)

lemma correct_signs_thres_Cons2:
  "correct_signs_thres thres (a # b # s) =
     a # correct_signs_thres thres
           (if flip_condition thres a b then map uminus (b # s) else b # s)"
proof -
  have "[0..<length (a # b # s) - 1] = 0 # map Suc [0..<length s]"
    by (simp add: upt_conv_Cons map_Suc_upt del: upt_Suc)
  then have "correct_signs_thres thres (a # b # s) =
      fold (correct_signs_step thres) (map Suc [0..<length s])
        (correct_signs_step thres 0 (a # b # s))"
    by (simp add: correct_signs_thres_def)
  also have "\<dots> = a # fold (correct_signs_step thres) [0..<length s]
      (if flip_condition thres a b then map uminus (b # s) else b # s)"
    by (simp only: correct_signs_step_0 fold_step_Suc)
  also have "\<dots> = a # correct_signs_thres thres
      (if flip_condition thres a b then map uminus (b # s) else b # s)"
    by (simp add: correct_signs_thres_def)
  finally show ?thesis .
qed

lemma correct_signs_thres_scan: "correct_signs_thres thres s = sign_scan thres s"
proof (induction thres s rule: sign_scan.induct)
  case (1 thres)
  then show ?case by (simp add: correct_signs_thres_def)
next
  case (2 thres a)
  then show ?case by (simp add: correct_signs_thres_def)
next
  case (3 thres a b s)
  then show ?case by (simp only: correct_signs_thres_Cons2 sign_scan.simps)
qed

lemma length_sign_scan: "length (sign_scan thres s) = length s"
  by (induction thres s rule: sign_scan.induct) auto

lemma hd_sign_scan: "s \<noteq> [] \<Longrightarrow> hd (sign_scan thres s) = hd s"
  by (cases "(thres, s)" rule: sign_scan.cases) auto

lemma sign_scan_Cons: "sign_scan thres (a # s) = a # tl (sign_scan thres (a # s))"
  by (cases s) simp_all

lemma not_flip_after_flip:
  assumes "thres \<le> 1" and "flip_condition thres a b"
  shows "\<not> flip_condition thres a (- b)"
proof
  assume "flip_condition thres a (- b)"
  with assms(2) have less: "\<bar>a + b\<bar> < thres * \<bar>b\<bar>" "\<bar>a - b\<bar> < thres * \<bar>b\<bar>"
    by (simp_all add: flip_condition_def)
  have "2 * \<bar>b\<bar> \<le> \<bar>a + b\<bar> + \<bar>a - b\<bar>"
    by linarith
  with less have "2 * \<bar>b\<bar> < 2 * (thres * \<bar>b\<bar>)"
    by linarith
  moreover have "thres * \<bar>b\<bar> \<le> 1 * \<bar>b\<bar>"
    using assms(1) by (intro mult_right_mono) simp_all
  ultimately show False
    by simp
qed

lemma no_flip_sign_scan: "thres \<le> 1 \<Longrightarrow> no_flip thres (sign_scan thres s)"
proof (induction thres s rule: sign_scan.induct)
  case (3 thres a b s)
  define b' where "b' = (if flip_condition thres a b then - b else b)"
  define s' where "s' = (if flip_condition thres a b then map uminus s else s)"
  have step: "sign_scan thres (a # b # s) = a # sign_scan thres (b' # s')"
    by (simp add: b'_def s'_def)
  have rest: "no_flip thres (sign_scan thres (b' # s'))"
    using "3.IH" "3.prems" by (simp add: b'_def s'_def split: if_splits)
  have here: "\<not> flip_condition thres a b'"
    using "3.prems" not_flip_after_flip [of thres a b] by (simp add: b'_def)
  obtain r where r: "sign_scan thres (b' # s') = b' # r"
    using sign_scan_Cons by blast
  from rest here show ?case
    by (simp only: step r no_flip.simps) simp
qed simp_all

lemma sign_scan_no_flip: "no_flip thres s \<Longrightarrow> sign_scan thres s = s"
  by (induction thres s rule: sign_scan.induct) simp_all

lemma no_flip_nth:
  "no_flip thres s \<longleftrightarrow> (\<forall>i. i + 1 < length s \<longrightarrow> \<not> flip_condition thres (s ! i) (s ! (i + 1)))"
proof (induction thres s rule: no_flip.induct)
  case (1 thres a b s)
  show ?case
  proof
    assume l: "no_flip thres (a # b # s)"
    show "\<forall>i. i + 1 < length (a # b # s) \<longrightarrow>
        \<not> flip_condition thres ((a # b # s) ! i) ((a # b # s) ! (i + 1))"
    proof (intro allI impI)
      fix i assume "i + 1 < length (a # b # s)"
      with l 1 show "\<not> flip_condition thres ((a # b # s) ! i) ((a # b # s) ! (i + 1))"
        by (cases i) auto
    qed
  next
    assume r: "\<forall>i. i + 1 < length (a # b # s) \<longrightarrow>
        \<not> flip_condition thres ((a # b # s) ! i) ((a # b # s) ! (i + 1))"
    from r [rule_format, of 0] have "\<not> flip_condition thres a b"
      by simp
    moreover have "\<forall>i. i + 1 < length (b # s) \<longrightarrow>
        \<not> flip_condition thres ((b # s) ! i) ((b # s) ! (i + 1))"
    proof (intro allI impI)
      fix i assume "i + 1 < length (b # s)"
      with r [rule_format, of "Suc i"]
      show "\<not> flip_condition thres ((b # s) ! i) ((b # s) ! (i + 1))"
        by simp
    qed
    ultimately show "no_flip thres (a # b # s)"
      using 1 by simp
  qed
qed simp_all

subsection \<open>The \<^verbatim>\<open>int64\<close> arithmetic of the test\<close>

lemma excess_bits_small: "m < 2 ^ 53 \<Longrightarrow> excess_bits m = 0"
  by (simp add: excess_bits.simps)

lemma float64_of_int_exact: "\<bar>z\<bar> < 2 ^ 53 \<Longrightarrow> float64_of_int z = real_of_int z"
proof -
  assume "\<bar>z\<bar> < 2 ^ 53"
  then have "nat \<bar>z\<bar> < 2 ^ 53"
    by simp
  then have "excess_bits (nat \<bar>z\<bar>) = 0"
    by (rule excess_bits_small)
  then have "float64_of_int z = real_of_int (sgn z * \<bar>z\<bar>)"
    by (simp add: float64_of_int_def Let_def)
  also have "sgn z * \<bar>z\<bar> = z"
    by (simp add: mult_sgn_abs)
  finally show ?thesis .
qed

lemma float64_of_int_nonneg:
  assumes "0 \<le> z"
  shows "0 \<le> float64_of_int z"
proof -
  define e where "e = excess_bits (nat \<bar>z\<bar>)"
  define q where "q = \<bar>z\<bar> div 2 ^ e"
  define q' where "q' = (if 2 ^ e < 2 * (\<bar>z\<bar> mod 2 ^ e) \<or> (2 * (\<bar>z\<bar> mod 2 ^ e) = 2 ^ e \<and> odd q)
    then q + 1 else q)"
  have "0 \<le> q"
    by (simp add: q_def pos_imp_zdiv_nonneg_iff)
  then have "0 \<le> q'"
    by (simp add: q'_def)
  moreover have "0 \<le> sgn z"
    using assms by (simp add: sgn_if)
  ultimately have "0 \<le> sgn z * q' * 2 ^ e"
    by simp
  then have "0 \<le> real_of_int (sgn z * q' * 2 ^ e)"
    by (simp only: of_int_0_le_iff)
  then show ?thesis
    by (simp only: float64_of_int_def Let_def e_def q_def q'_def)
qed

lemma float64_of_int_0: "float64_of_int 0 = 0"
  by (simp add: float64_of_int_def Let_def)

lemma sint_add_small:
  fixes a b :: int64
  assumes "\<bar>sint a\<bar> < 2 ^ 62" and "\<bar>sint b\<bar> < 2 ^ 62"
  shows "sint (a + b) = sint a + sint b"
proof -
  have "- (2 ^ 63) \<le> sint a + sint b" "sint a + sint b < 2 ^ 63"
    using assms by simp_all
  then show ?thesis
    by (simp add: sint_word_add signed_take_bit_int_eq_self)
qed

lemma sint_minus_int64:
  fixes a :: int64
  assumes "sint a \<noteq> - (2 ^ 63)"
  shows "sint (- a) = - sint a"
proof -
  have "- (2 ^ 63) \<le> sint a" "sint a < 2 ^ 63"
    using sint_ge [of a] sint_lt [of a] by simp_all
  with assms have "- (2 ^ 63) \<le> - sint a" "- sint a < 2 ^ 63"
    by simp_all
  then show ?thesis
    by (simp add: sint_word_minus signed_take_bit_int_eq_self)
qed

lemma sint_int64_abs:
  fixes a :: int64
  assumes "sint a \<noteq> - (2 ^ 63)"
  shows "sint (int64_abs a) = \<bar>sint a\<bar>"
  using assms by (simp add: int64_abs_def sint_minus_int64)

lemma sint_min_int64: "sint (- (2 ^ 63) :: int64) = - (2 ^ 63)"
  by simp

lemma int64_abs_min: "sint (a :: int64) = - (2 ^ 63) \<Longrightarrow> sint (int64_abs a) = - (2 ^ 63)"
  by (simp add: int64_abs_def sint_word_minus)

subsection \<open>The loop on \<^verbatim>\<open>int64\<close> is the scan, and on small values the scan of the numbers\<close>

lemma small_int64_not_min: "small_int64 v \<Longrightarrow> sint v \<noteq> - (2 ^ 63)"
  by (auto simp add: small_int64_def)

lemma small_int64_uminus: "small_int64 v \<Longrightarrow> small_int64 (- v)"
  using sint_minus_int64 [of v] by (auto simp add: small_int64_def)

lemma int64_value_uminus: "small_int64 v \<Longrightarrow> int64_value (- v) = - int64_value v"
  using sint_minus_int64 [of v] by (auto simp add: small_int64_def int64_value_def)

lemma int64_value_inj: "int64_value a = int64_value b \<Longrightarrow> a = b"
  using signed_word_eqI [of a b] by (simp add: int64_value_def)

lemma map_int64_value_inj: "map int64_value s = map int64_value t \<Longrightarrow> s = t"
proof (induction s arbitrary: t)
  case Nil
  then show ?case by simp
next
  case (Cons a s)
  then show ?case by (cases t) (auto dest: int64_value_inj)
qed

lemma flip_condition_int64_small:
  assumes "small_int64 a" and "small_int64 b"
  shows "flip_condition_int64 thres a b = flip_condition thres (int64_value a) (int64_value b)"
proof -
  from assms have a: "\<bar>sint a\<bar> < 2 ^ 52" and b: "\<bar>sint b\<bar> < 2 ^ 52"
    by (simp_all add: small_int64_def)
  have sum: "sint (a + b) = sint a + sint b"
    using a b by (intro sint_add_small) simp_all
  with a b have sum_small: "\<bar>sint (a + b)\<bar> < 2 ^ 53"
    by simp
  then have "sint (a + b) \<noteq> - (2 ^ 63)"
    by auto
  then have "sint (int64_abs (a + b)) = \<bar>sint a + sint b\<bar>"
    by (simp add: sint_int64_abs sum)
  moreover have "\<bar>\<bar>sint a + sint b\<bar>\<bar> < 2 ^ 53"
    using sum_small sum by simp
  ultimately have left: "float64_of_int (sint (int64_abs (a + b))) = real_of_int \<bar>sint a + sint b\<bar>"
    by (simp only: float64_of_int_exact)
  have "sint b \<noteq> - (2 ^ 63)"
    using b by auto
  then have "sint (int64_abs b) = \<bar>sint b\<bar>"
    by (rule sint_int64_abs)
  moreover have "\<bar>\<bar>sint b\<bar>\<bar> < 2 ^ 53"
    using b by simp
  ultimately have right: "float64_of_int (sint (int64_abs b)) = real_of_int \<bar>sint b\<bar>"
    by (simp only: float64_of_int_exact)
  show ?thesis
    by (simp add: flip_condition_int64_def flip_condition_def int64_value_def left right)
qed

lemma correct_signs_step_int64_Suc:
  "correct_signs_step_int64 thres (Suc i) (a # s) = a # correct_signs_step_int64 thres i s"
  by (simp add: correct_signs_step_int64_def negate_from_def)

lemma fold_step_int64_Suc:
  "fold (correct_signs_step_int64 thres) (map Suc is) (a # s) =
     a # fold (correct_signs_step_int64 thres) is s"
  by (induction "is" arbitrary: s) (simp_all add: correct_signs_step_int64_Suc)

lemma correct_signs_step_int64_0:
  "correct_signs_step_int64 thres 0 (a # b # s) =
     a # (if flip_condition_int64 thres a b then map uminus (b # s) else b # s)"
  by (simp add: correct_signs_step_int64_def negate_from_def)

lemma correct_signs_thres_int64_Cons2:
  "correct_signs_thres_int64 thres (a # b # s) =
     a # correct_signs_thres_int64 thres
           (if flip_condition_int64 thres a b then map uminus (b # s) else b # s)"
proof -
  have "[0..<length (a # b # s) - 1] = 0 # map Suc [0..<length s]"
    by (simp add: upt_conv_Cons map_Suc_upt del: upt_Suc)
  then have "correct_signs_thres_int64 thres (a # b # s) =
      fold (correct_signs_step_int64 thres) (map Suc [0..<length s])
        (correct_signs_step_int64 thres 0 (a # b # s))"
    by (simp add: correct_signs_thres_int64_def)
  also have "\<dots> = a # fold (correct_signs_step_int64 thres) [0..<length s]
      (if flip_condition_int64 thres a b then map uminus (b # s) else b # s)"
    by (simp only: correct_signs_step_int64_0 fold_step_int64_Suc)
  also have "\<dots> = a # correct_signs_thres_int64 thres
      (if flip_condition_int64 thres a b then map uminus (b # s) else b # s)"
    by (simp add: correct_signs_thres_int64_def)
  finally show ?thesis .
qed

lemma correct_signs_thres_int64_scan:
  "correct_signs_thres_int64 thres s = sign_scan_int64 thres s"
proof (induction thres s rule: sign_scan_int64.induct)
  case (1 thres)
  then show ?case by (simp add: correct_signs_thres_int64_def)
next
  case (2 thres a)
  then show ?case by (simp add: correct_signs_thres_int64_def)
next
  case (3 thres a b s)
  then show ?case by (simp only: correct_signs_thres_int64_Cons2 sign_scan_int64.simps)
qed

lemma length_sign_scan_int64: "length (sign_scan_int64 thres s) = length s"
  by (induction thres s rule: sign_scan_int64.induct) auto

lemma hd_sign_scan_int64: "s \<noteq> [] \<Longrightarrow> hd (sign_scan_int64 thres s) = hd s"
  by (cases "(thres, s)" rule: sign_scan_int64.cases) auto

lemma map_uminus_small:
  "list_all small_int64 s \<Longrightarrow>
     list_all small_int64 (map uminus s)
     \<and> map int64_value (map uminus s) = map uminus (map int64_value s)"
  by (induction s) (simp_all add: small_int64_uminus int64_value_uminus)

lemma sign_scan_int64_small:
  "list_all small_int64 s \<Longrightarrow>
     list_all small_int64 (sign_scan_int64 thres s)
     \<and> map int64_value (sign_scan_int64 thres s) = sign_scan thres (map int64_value s)"
proof (induction thres s rule: sign_scan_int64.induct)
  case (3 thres a b s)
  define t where "t = (if flip_condition_int64 thres a b then map uminus (b # s) else b # s)"
  have small: "small_int64 a" "small_int64 b" "list_all small_int64 (b # s)"
    using "3.prems" by simp_all
  have test: "flip_condition_int64 thres a b
      = flip_condition thres (int64_value a) (int64_value b)"
    using small by (simp add: flip_condition_int64_small)
  have t_small: "list_all small_int64 t"
    using map_uminus_small [OF small(3)] small(3) by (simp only: t_def split: if_split) simp
  have t_val: "map int64_value t =
      (if flip_condition thres (int64_value a) (int64_value b)
       then map uminus (map int64_value (b # s)) else map int64_value (b # s))"
    using map_uminus_small [OF small(3)] by (simp only: t_def test split: if_split) simp
  have IH: "list_all small_int64 (sign_scan_int64 thres t)
     \<and> map int64_value (sign_scan_int64 thres t) = sign_scan thres (map int64_value t)"
    using "3.IH" t_small 
    by (cases "flip_condition_int64 thres a b") (simp_all add: t_def)
  have step: "sign_scan_int64 thres (a # b # s) = a # sign_scan_int64 thres t"
    by (simp add: t_def)
  have step': "sign_scan thres (map int64_value (a # b # s)) =
      int64_value a # sign_scan thres (map int64_value t)"
    by (simp add: t_val)
  show ?case
    using IH small(1) by (simp only: step step') simp
qed simp_all

subsection \<open>Values at which \<^verbatim>\<open>int64\<close> wraps around\<close>

lemma excess_bits_2_63: "excess_bits 9223372036854775808 = 11"
  by (simp add: excess_bits.simps)

lemma excess_bits_2_62: "excess_bits 4611686018427387904 = 10"
  by (simp add: excess_bits.simps)

lemma float64_of_int_min: "float64_of_int (- (2 ^ 63)) = - (2 ^ 63)"
  by (simp add: float64_of_int_def Let_def excess_bits_2_63)

lemma float64_of_int_2_62: "float64_of_int (2 ^ 62) = 2 ^ 62"
  by (simp add: float64_of_int_def Let_def excess_bits_2_62)

lemma flip_condition_int64_overflow: "flip_condition_int64 (1 / 2) (2 ^ 62) (2 ^ 62)"
proof -
  have "sint (int64_abs (2 ^ 62 + 2 ^ 62 :: int64)) = - (2 ^ 63)"
    by (simp add: int64_abs_def)
  moreover have "sint (int64_abs (2 ^ 62 :: int64)) = 2 ^ 62"
    by (simp add: int64_abs_def)
  ultimately show ?thesis
    unfolding flip_condition_int64_def by (simp only: float64_of_int_min float64_of_int_2_62) simp
qed

lemma flip_condition_int64_opposite: "flip_condition_int64 (1 / 2) (2 ^ 62) (- (2 ^ 62))"
proof -
  have "sint (int64_abs (2 ^ 62 + - (2 ^ 62) :: int64)) = 0"
    by (simp add: int64_abs_def)
  moreover have "sint (int64_abs (- (2 ^ 62) :: int64)) = 2 ^ 62"
    by (simp add: int64_abs_def)
  ultimately show ?thesis
    unfolding flip_condition_int64_def
    by (simp only: float64_of_int_0 float64_of_int_2_62) simp
qed

lemma flip_condition_int64_min: 
  assumes "sint a = - (2 ^ 63)"
  shows "flip_condition_int64 thres a 0"
proof -
  have "sint (int64_abs (a + 0)) = - (2 ^ 63)"
    using assms by (simp add: int64_abs_min)
  moreover have "sint (int64_abs (0 :: int64)) = 0"
    by (simp add: int64_abs_def)
  ultimately show ?thesis
    unfolding flip_condition_int64_def
    by (simp only: float64_of_int_0 float64_of_int_min) simp
qed

lemma flip_condition_int64_zero:
  "flip_condition_int64 thres a 0 \<longleftrightarrow> sint a = - (2 ^ 63)"
proof (cases "sint a = - (2 ^ 63)")
  case True
  then show ?thesis by (simp add: flip_condition_int64_min)
next
  case False
  then have "sint (int64_abs (a + 0)) = \<bar>sint a\<bar>"
    by (simp add: sint_int64_abs)
  then have "0 \<le> float64_of_int (sint (int64_abs (a + 0)))"
    by (simp add: float64_of_int_nonneg)
  moreover have "float64_of_int (sint (int64_abs (0 :: int64))) = 0"
    by (simp add: int64_abs_def float64_of_int_0)
  ultimately have "\<not> flip_condition_int64 thres a 0"
    unfolding flip_condition_int64_def by simp
  with False show ?thesis by simp
qed

lemma correct_signs_int64_overflow:
  "correct_signs_int64 [2 ^ 62, 2 ^ 62] = [2 ^ 62, - (2 ^ 62)]"
  using flip_condition_int64_overflow
  by (simp add: correct_signs_int64_def correct_signs_thres_int64_scan)

lemma correct_signs_int64_overflow_again:
  "correct_signs_int64 [2 ^ 62, - (2 ^ 62)] = [2 ^ 62, 2 ^ 62]"
  using flip_condition_int64_opposite
  by (simp add: correct_signs_int64_def correct_signs_thres_int64_scan)

lemma not_flip_int64_0_5: "\<not> flip_condition_int64 (1 / 2) 0 (- 5)"
proof -
  have "small_int64 0" "small_int64 (- 5)"
    by (simp_all add: small_int64_def)
  then show ?thesis
    by (simp add: flip_condition_int64_small flip_condition_def int64_value_def)
qed

lemma correct_signs_int64_min:
  "correct_signs_int64 [- (2 ^ 63), 0, 5] = [- (2 ^ 63), 0, - 5]"
proof -
  have "flip_condition_int64 (1 / 2) (- (2 ^ 63)) 0"
    by (rule flip_condition_int64_min) simp
  with not_flip_int64_0_5 show ?thesis
    by (simp add: correct_signs_int64_def correct_signs_thres_int64_scan)
qed

lemma correct_signs_int64_small:
  assumes "list_all small_int64 ints"
  shows "map int64_value (correct_signs_int64 ints) = sign_scan (1 / 2) (map int64_value ints)"
    and "list_all small_int64 (correct_signs_int64 ints)"
  using sign_scan_int64_small [OF assms, of "1 / 2"]
  by (simp_all add: correct_signs_int64_def correct_signs_thres_int64_scan)

lemma correct_signs_int64_idem:
  assumes "list_all small_int64 ints"
  shows "correct_signs_int64 (correct_signs_int64 ints) = correct_signs_int64 ints"
proof -
  have "map int64_value (correct_signs_int64 (correct_signs_int64 ints)) =
      sign_scan (1 / 2) (map int64_value (correct_signs_int64 ints))"
    using correct_signs_int64_small(2) [OF assms] by (rule correct_signs_int64_small(1))
  also have "\<dots> = sign_scan (1 / 2) (sign_scan (1 / 2) (map int64_value ints))"
    by (simp only: correct_signs_int64_small(1) [OF assms])
  also have "\<dots> = sign_scan (1 / 2) (map int64_value ints)"
    by (rule sign_scan_no_flip, rule no_flip_sign_scan) simp
  also have "\<dots> = map int64_value (correct_signs_int64 ints)"
    by (simp only: correct_signs_int64_small(1) [OF assms])
  finally show ?thesis
    by (rule map_int64_value_inj)
qed

lemma correct_signs_int64_no_flip:
  assumes "list_all small_int64 ints" and "i + 1 < length ints"
  shows "\<not> flip_condition_int64 (1 / 2) (correct_signs_int64 ints ! i)
           (correct_signs_int64 ints ! (i + 1))"
proof -
  let ?r = "correct_signs_int64 ints"
  have len: "length ?r = length ints"
    by (simp add: correct_signs_int64_def correct_signs_thres_int64_scan length_sign_scan_int64)
  have small: "list_all small_int64 ?r"
    using assms(1) by (rule correct_signs_int64_small(2))
  then have si: "small_int64 (?r ! i)" "small_int64 (?r ! (i + 1))"
    using assms(2) len by (simp_all add: list_all_length)
  have "no_flip (1 / 2) (map int64_value ?r)"
    unfolding correct_signs_int64_small(1) [OF assms(1)]
    by (rule no_flip_sign_scan) simp
  then have "\<not> flip_condition (1 / 2) (map int64_value ?r ! i) (map int64_value ?r ! (i + 1))"
    using assms(2) len by (simp add: no_flip_nth)
  then have "\<not> flip_condition (1 / 2) (int64_value (?r ! i)) (int64_value (?r ! (i + 1)))"
    using assms(2) len by simp
  then show ?thesis
    using si by (simp add: flip_condition_int64_small)
qed


subsection \<open>The claims on the sign correction\<close>

text \<open>
  C1. Taken as a statement on every numeric series, the claim fails on \<^verbatim>\<open>int64\<close>: in
  \<open>[2\<^sup>6\<^sup>2, 2\<^sup>6\<^sup>2]\<close> the sum of the two elements wraps around to \<open>- 2\<^sup>6\<^sup>3\<close>, whose
  \<^verbatim>\<open>np.abs\<close> is \<open>- 2\<^sup>6\<^sup>3\<close> again, so the code negates the second element although
  \<open>\<bar>a + b\<bar> < 0.5 \<bar>b\<bar>\<close> is false of the two numbers, and the scan that the claim describes
  leaves the series as it is.
\<close>

theorem correct_signs_wraps_counterexample:
  "correct_signs_int64 [2 ^ 62, 2 ^ 62] = [2 ^ 62, - (2 ^ 62)]
   \<and> \<not> flip_condition (1 / 2) (int64_value (2 ^ 62)) (int64_value (2 ^ 62))
   \<and> sign_scan (1 / 2) (map int64_value [2 ^ 62, 2 ^ 62]) = map int64_value [2 ^ 62, 2 ^ 62]
   \<and> map int64_value (correct_signs_int64 [2 ^ 62, 2 ^ 62])
       \<noteq> sign_scan (1 / 2) (map int64_value [2 ^ 62, 2 ^ 62])"
proof -
  have test: "\<not> flip_condition (1 / 2) (int64_value (2 ^ 62)) (int64_value (2 ^ 62))"
    by (simp add: flip_condition_def int64_value_def)
  then have scan: "sign_scan (1 / 2) (map int64_value [2 ^ 62, 2 ^ 62]) =
      map int64_value [2 ^ 62, 2 ^ 62]"
    by simp
  have "int64_value (- (2 ^ 62)) \<noteq> int64_value (2 ^ 62)"
    by (simp add: int64_value_def)
  then have "map int64_value [2 ^ 62, - (2 ^ 62)] \<noteq> map int64_value [2 ^ 62, 2 ^ 62]"
    by simp
  with test scan show ?thesis
    by (simp only: correct_signs_int64_overflow) simp
qed

text \<open>
  C1, as it holds. On a \<^verbatim>\<open>float64\<close> series, the sum and the product of the test read as
  exact, the result of \<^verbatim>\<open>correct_signs\<close> (threshold 0.5) is the scan of the series from
  index 0 to length - 2 that, wherever \<open>\<bar>s[i] + s[i+1]\<bar> < 0.5 \<bar>s[i+1]\<bar>\<close> holds on the working
  values, negates the whole suffix after the current index and goes on;
  \<open>[1.0, -0.9, -0.8]\<close> becomes \<open>[1.0, 0.9, 0.8]\<close>. On an \<^verbatim>\<open>int64\<close> series the result is that
  scan with the test as the machine evaluates it (wrapping sum, wrapping \<^verbatim>\<open>np.abs\<close>,
  conversion to \<^verbatim>\<open>float64\<close>), and when every value is below \<open>2\<^sup>5\<^sup>2\<close> in absolute value the
  numbers of the result are the scan of the numbers of the input under the test on
  numbers. On every series of either type the result is as long as the input and starts
  with the input's first element.
\<close>

theorem correct_signs_scan:
  "correct_signs series = sign_scan (1 / 2) series
   \<and> length (correct_signs series) = length series
   \<and> (series \<noteq> [] \<longrightarrow> hd (correct_signs series) = hd series)
   \<and> correct_signs [1, - (9 / 10), - (8 / 10)] = [1, 9 / 10, 8 / 10]
   \<and> correct_signs_int64 ints = sign_scan_int64 (1 / 2) ints
   \<and> (list_all small_int64 ints \<longrightarrow>
        map int64_value (correct_signs_int64 ints) = sign_scan (1 / 2) (map int64_value ints))
   \<and> length (correct_signs_int64 ints) = length ints
   \<and> (ints \<noteq> [] \<longrightarrow> hd (correct_signs_int64 ints) = hd ints)"
proof -
  have "correct_signs [1, - (9 / 10), - (8 / 10)] = [1, 9 / 10, 8 / 10]"
    by (simp add: correct_signs_def correct_signs_thres_scan flip_condition_def)
  then have floats: "correct_signs series = sign_scan (1 / 2) series
      \<and> length (correct_signs series) = length series
      \<and> (series \<noteq> [] \<longrightarrow> hd (correct_signs series) = hd series)
      \<and> correct_signs [1, - (9 / 10), - (8 / 10)] = [1, 9 / 10, 8 / 10]"
    by (simp add: correct_signs_def correct_signs_thres_scan length_sign_scan hd_sign_scan)
  have ints: "correct_signs_int64 ints = sign_scan_int64 (1 / 2) ints
      \<and> length (correct_signs_int64 ints) = length ints
      \<and> (ints \<noteq> [] \<longrightarrow> hd (correct_signs_int64 ints) = hd ints)"
    by (simp add: correct_signs_int64_def correct_signs_thres_int64_scan
        length_sign_scan_int64 hd_sign_scan_int64)
  have "list_all small_int64 ints \<longrightarrow>
      map int64_value (correct_signs_int64 ints) = sign_scan (1 / 2) (map int64_value ints)"
    by (simp add: correct_signs_int64_small(1))
  with floats ints show ?thesis
    by blast
qed

theorem correct_signs_scan_witness:
  "[2, - 2, 3] \<noteq> ([] :: real list) \<and> correct_signs [2, - 2, 3] = [2, 2, 3]
   \<and> hd (correct_signs [2, - 2, 3]) = hd [2, - 2, 3 :: real]
   \<and> list_all small_int64 [4, - 4, 3] \<and> [4, - 4, 3] \<noteq> ([] :: int64 list)
   \<and> map int64_value (correct_signs_int64 [4, - 4, 3]) = [4, 4, 3]
   \<and> hd (correct_signs_int64 [4, - 4, 3]) = hd [4, - 4, 3 :: int64]"
proof -
  note inst = correct_signs_scan [of "[2, - 2, 3]" "[4, - 4, 3]"]
  have small: "list_all small_int64 [4, - 4, 3]"
    by (simp add: small_int64_def)
  from inst have "correct_signs [2, - 2, 3] = sign_scan (1 / 2) [2, - 2, 3]"
    by blast
  then have floats: "correct_signs [2, - 2, 3] = [2, 2, 3]"
    by (simp add: flip_condition_def)
  from inst small have "map int64_value (correct_signs_int64 [4, - 4, 3]) =
      sign_scan (1 / 2) (map int64_value [4, - 4, 3])"
    by blast
  then have ints: "map int64_value (correct_signs_int64 [4, - 4, 3]) = [4, 4, 3]"
    by (simp add: flip_condition_def int64_value_def)
  from inst have "hd (correct_signs_int64 [4, - 4, 3]) = hd [4, - 4, 3 :: int64]"
    by blast
  with floats ints small show ?thesis
    by simp
qed

text \<open>
  C3. Taken as a statement on every input series, the claim fails on \<^verbatim>\<open>int64\<close>: the
  corrected \<open>[2\<^sup>6\<^sup>2, 2\<^sup>6\<^sup>2]\<close> is \<open>[2\<^sup>6\<^sup>2, - 2\<^sup>6\<^sup>2]\<close>, on which the test holds at index 0, and
  correcting it once more gives \<open>[2\<^sup>6\<^sup>2, 2\<^sup>6\<^sup>2]\<close> back.
\<close>

theorem correct_signs_twice_counterexample:
  "correct_signs_int64 [2 ^ 62, 2 ^ 62] = [2 ^ 62, - (2 ^ 62)]
   \<and> correct_signs_int64 (correct_signs_int64 [2 ^ 62, 2 ^ 62]) = [2 ^ 62, 2 ^ 62]
   \<and> correct_signs_int64 (correct_signs_int64 [2 ^ 62, 2 ^ 62])
       \<noteq> correct_signs_int64 [2 ^ 62, 2 ^ 62]
   \<and> flip_condition_int64 (1 / 2) (correct_signs_int64 [2 ^ 62, 2 ^ 62] ! 0)
       (correct_signs_int64 [2 ^ 62, 2 ^ 62] ! 1)"
proof -
  have differ: "[2 ^ 62, 2 ^ 62] \<noteq> [2 ^ 62, - (2 ^ 62) :: int64]"
    by simp
  have test: "flip_condition_int64 (1 / 2) ([2 ^ 62, - (2 ^ 62)] ! 0) ([2 ^ 62, - (2 ^ 62)] ! 1)"
    using flip_condition_int64_opposite by simp
  show ?thesis
    unfolding correct_signs_int64_overflow correct_signs_int64_overflow_again
    using differ test by blast
qed

text \<open>
  C3, as it holds. Correcting a corrected series changes nothing, and on the result of
  \<^verbatim>\<open>correct_signs\<close> the test holds at no index, for a \<^verbatim>\<open>float64\<close> series (the sum and the
  product of the test read as exact) and for an \<^verbatim>\<open>int64\<close> series whose values are all
  below \<open>2\<^sup>5\<^sup>2\<close> in absolute value.
\<close>

theorem correct_signs_idempotent:
  "correct_signs (correct_signs series) = correct_signs series
   \<and> no_flip (1 / 2) (correct_signs series)
   \<and> (\<forall>i. i + 1 < length series \<longrightarrow>
         \<not> flip_condition (1 / 2) (correct_signs series ! i) (correct_signs series ! (i + 1)))
   \<and> (list_all small_int64 ints \<longrightarrow>
        correct_signs_int64 (correct_signs_int64 ints) = correct_signs_int64 ints
        \<and> (\<forall>i. i + 1 < length ints \<longrightarrow>
              \<not> flip_condition_int64 (1 / 2) (correct_signs_int64 ints ! i)
                  (correct_signs_int64 ints ! (i + 1))))"
proof -
  have nf: "no_flip (1 / 2) (sign_scan (1 / 2) series)"
    by (rule no_flip_sign_scan) simp
  then have "\<forall>i. i + 1 < length series \<longrightarrow>
      \<not> flip_condition (1 / 2) (sign_scan (1 / 2) series ! i) (sign_scan (1 / 2) series ! (i + 1))"
    by (simp add: no_flip_nth length_sign_scan)
  with nf have floats: "correct_signs (correct_signs series) = correct_signs series
      \<and> no_flip (1 / 2) (correct_signs series)
      \<and> (\<forall>i. i + 1 < length series \<longrightarrow>
         \<not> flip_condition (1 / 2) (correct_signs series ! i) (correct_signs series ! (i + 1)))"
    by (simp add: correct_signs_def correct_signs_thres_scan sign_scan_no_flip)
  have "list_all small_int64 ints \<longrightarrow>
        correct_signs_int64 (correct_signs_int64 ints) = correct_signs_int64 ints
        \<and> (\<forall>i. i + 1 < length ints \<longrightarrow>
              \<not> flip_condition_int64 (1 / 2) (correct_signs_int64 ints ! i)
                  (correct_signs_int64 ints ! (i + 1)))"
    using correct_signs_int64_idem [of ints] correct_signs_int64_no_flip [of ints]
    by blast
  with floats show ?thesis
    by blast
qed

theorem correct_signs_idempotent_witness:
  "correct_signs [1, - (9 / 10), - (8 / 10)] = [1, 9 / 10, 8 / 10]
   \<and> correct_signs (correct_signs [1, - (9 / 10), - (8 / 10)]) = [1, 9 / 10, 8 / 10]
   \<and> (0 :: nat) + 1 < length [1, - (9 / 10), - (8 / 10 :: real)]
   \<and> \<not> flip_condition (1 / 2) (correct_signs [1, - (9 / 10), - (8 / 10)] ! 0)
         (correct_signs [1, - (9 / 10), - (8 / 10)] ! (0 + 1))
   \<and> list_all small_int64 [10, - 9, - 8]
   \<and> correct_signs_int64 [10, - 9, - 8] = [10, 9, 8]
   \<and> correct_signs_int64 (correct_signs_int64 [10, - 9, - 8]) = [10, 9, 8]
   \<and> (0 :: nat) + 1 < length [10, - 9, - 8 :: int64]
   \<and> \<not> flip_condition_int64 (1 / 2) (correct_signs_int64 [10, - 9, - 8] ! 0)
         (correct_signs_int64 [10, - 9, - 8] ! (0 + 1))"
proof -
  have val: "correct_signs [1, - (9 / 10), - (8 / 10)] = [1, 9 / 10, 8 / 10]"
    by (simp add: correct_signs_def correct_signs_thres_scan flip_condition_def)
  have small: "list_all small_int64 [10, - 9, - 8]"
    by (simp add: small_int64_def)
  have "small_int64 10" "small_int64 (- 9)" "small_int64 9" "small_int64 8"
    by (simp_all add: small_int64_def)
  then have val64: "correct_signs_int64 [10, - 9, - 8] = [10, 9, 8]"
    by (simp add: correct_signs_int64_def correct_signs_thres_int64_scan
        flip_condition_int64_small flip_condition_def int64_value_def)
  note inst = correct_signs_idempotent [of "[1, - (9 / 10), - (8 / 10)]" "[10, - 9, - 8]"]
  from inst have twice: "correct_signs (correct_signs [1, - (9 / 10), - (8 / 10)]) =
      correct_signs [1, - (9 / 10), - (8 / 10)]"
    by blast
  from inst have "(0 :: nat) + 1 < length [1, - (9 / 10), - (8 / 10 :: real)] \<longrightarrow>
      \<not> flip_condition (1 / 2) (correct_signs [1, - (9 / 10), - (8 / 10)] ! 0)
         (correct_signs [1, - (9 / 10), - (8 / 10)] ! (0 + 1))"
    by blast
  then have here: "\<not> flip_condition (1 / 2) (correct_signs [1, - (9 / 10), - (8 / 10)] ! 0)
         (correct_signs [1, - (9 / 10), - (8 / 10)] ! (0 + 1))"
    by simp
  from inst small have twice64: "correct_signs_int64 (correct_signs_int64 [10, - 9, - 8]) =
      correct_signs_int64 [10, - 9, - 8]"
    by blast
  from inst small have "(0 :: nat) + 1 < length [10, - 9, - 8 :: int64] \<longrightarrow>
      \<not> flip_condition_int64 (1 / 2) (correct_signs_int64 [10, - 9, - 8] ! 0)
         (correct_signs_int64 [10, - 9, - 8] ! (0 + 1))"
    by blast
  then have here64: "\<not> flip_condition_int64 (1 / 2) (correct_signs_int64 [10, - 9, - 8] ! 0)
         (correct_signs_int64 [10, - 9, - 8] ! (0 + 1))"
    by simp
  from val twice here small val64 twice64 here64 show ?thesis
    by simp
qed

text \<open>
  C9. Taken as a statement on every series, the second half of the claim fails on
  \<^verbatim>\<open>int64\<close>: in \<open>[- 2\<^sup>6\<^sup>3, 0, 5]\<close> the successor of the first element is 0, but \<^verbatim>\<open>np.abs\<close>
  of \<open>- 2\<^sup>6\<^sup>3 + 0\<close> wraps around to \<open>- 2\<^sup>6\<^sup>3\<close>, which is below \<open>0.5 \<cdot> 0\<close>: the test holds at
  index 0 and the suffix is negated.
\<close>

theorem correct_signs_zero_successor_counterexample:
  "[- (2 ^ 63), 0, 5 :: int64] ! (0 + 1) = 0
   \<and> flip_condition_int64 (1 / 2) ([- (2 ^ 63), 0, 5] ! 0) ([- (2 ^ 63), 0, 5] ! (0 + 1))
   \<and> correct_signs_int64 [- (2 ^ 63), 0, 5] = [- (2 ^ 63), 0, - 5]"
proof -
  have "flip_condition_int64 (1 / 2) (- (2 ^ 63)) 0"
    by (rule flip_condition_int64_min) simp
  then have "flip_condition_int64 (1 / 2) ([- (2 ^ 63), 0, 5] ! 0) ([- (2 ^ 63), 0, 5] ! (0 + 1))"
    by simp
  moreover have "[- (2 ^ 63), 0, 5 :: int64] ! (0 + 1) = 0"
    by simp
  ultimately show ?thesis
    using correct_signs_int64_min by blast
qed

text \<open>
  C9, as it holds. A series of length 0 or 1 is returned as it is, whatever its type.
  Where the successor element is 0 the test is false, so the step at that index leaves
  the series alone, on a \<^verbatim>\<open>float64\<close> series always and on an \<^verbatim>\<open>int64\<close> series exactly
  when the current element is not the least value \<open>- 2\<^sup>6\<^sup>3\<close>. The source divides nowhere:
  the test multiplies, so no branch of the model is an error.
\<close>

theorem correct_signs_edge_cases:
  "(length series \<le> 1 \<longrightarrow> correct_signs series = series)
   \<and> \<not> flip_condition thres a 0
   \<and> (series ! (i + 1) = 0 \<longrightarrow> correct_signs_step thres i series = series)
   \<and> (length ints \<le> 1 \<longrightarrow> correct_signs_int64 ints = ints)
   \<and> (flip_condition_int64 thres b 0 \<longleftrightarrow> sint b = - (2 ^ 63))
   \<and> (ints ! (i + 1) = 0 \<and> sint (ints ! i) \<noteq> - (2 ^ 63) \<longrightarrow>
        correct_signs_step_int64 thres i ints = ints)"
proof -
  have "length series \<le> 1 \<longrightarrow> correct_signs series = series"
    by (cases "(1 / 2 :: real, series)" rule: sign_scan.cases)
      (simp_all add: correct_signs_def correct_signs_thres_scan)
  then have floats: "(length series \<le> 1 \<longrightarrow> correct_signs series = series)
      \<and> \<not> flip_condition thres a 0
      \<and> (series ! (i + 1) = 0 \<longrightarrow> correct_signs_step thres i series = series)"
    by (simp add: flip_condition_def correct_signs_step_def)
  have short: "length ints \<le> 1 \<longrightarrow> correct_signs_int64 ints = ints"
    by (cases "(1 / 2 :: real, ints)" rule: sign_scan_int64.cases)
      (simp_all add: correct_signs_int64_def correct_signs_thres_int64_scan)
  have "ints ! (i + 1) = 0 \<and> sint (ints ! i) \<noteq> - (2 ^ 63) \<longrightarrow>
      correct_signs_step_int64 thres i ints = ints"
    by (simp add: correct_signs_step_int64_def flip_condition_int64_zero)
  with floats short flip_condition_int64_zero [of thres b] show ?thesis
    by blast
qed

theorem correct_signs_edge_cases_witness:
  "length [7 :: real] \<le> 1 \<and> correct_signs [7] = [7]
   \<and> [3, 0, 5] ! (0 + 1) = (0 :: real) \<and> correct_signs_step (1 / 2) 0 [3, 0, 5] = [3, 0, 5]
   \<and> length [7 :: int64] \<le> 1 \<and> correct_signs_int64 [7] = [7]
   \<and> [3, 0, 5] ! (0 + 1) = (0 :: int64) \<and> sint ([3, 0, 5 :: int64] ! 0) \<noteq> - (2 ^ 63)
   \<and> correct_signs_step_int64 (1 / 2) 0 [3, 0, 5] = [3, 0, 5]
   \<and> \<not> flip_condition_int64 (1 / 2) 3 0"
proof -
  note inst = correct_signs_edge_cases [where series = "[3, 0, 5]" and i = 0
      and thres = "1 / 2" and ints = "[3, 0, 5]" and b = 3]
  note short = correct_signs_edge_cases [where series = "[7]" and ints = "[7]"]
  have "correct_signs [7] = [7]" "correct_signs_int64 [7] = [7]"
    using short by simp_all
  moreover have "correct_signs_step (1 / 2) 0 [3, 0, 5] = [3, 0, 5]"
    using inst by simp
  moreover have "correct_signs_step_int64 (1 / 2) 0 [3, 0, 5] = [3, 0, 5]"
    using inst by simp
  moreover have "\<not> flip_condition_int64 (1 / 2) 3 0"
    using inst by simp
  ultimately show ?thesis by simp
qed


section \<open>Properties of \<^verbatim>\<open>get_entropy\<close>\<close>

subsection \<open>Arithmetic of numpy's floats\<close>

lemma np_add_NaN_right [simp]: "np_add a NaN = NaN"
  by (cases a) simp_all

lemma np_div_NaN_right [simp]: "np_div a NaN = NaN"
  by (cases a) simp_all

lemma np_mul_NaN_right [simp]: "np_mul a NaN = NaN"
  by (cases a) simp_all

lemma foldl_np_add_Num: "foldl np_add (Num a) (map Num v) = Num (a + sum_list v)"
  by (induction v arbitrary: a) (simp_all add: add.assoc)

lemma np_sum_map_Num: "np_sum (map Num v) = Num (sum_list v)"
  by (simp add: np_sum_def foldl_np_add_Num)

lemma foldl_np_add_NaN: "foldl np_add NaN v = NaN"
  by (induction v) simp_all

lemma foldl_np_add_mem_NaN: "NaN \<in> set v \<Longrightarrow> foldl np_add a v = NaN"
  by (induction v arbitrary: a) (auto simp: foldl_np_add_NaN)

lemma np_sum_mem_NaN: "NaN \<in> set v \<Longrightarrow> np_sum v = NaN"
  by (simp add: np_sum_def foldl_np_add_mem_NaN)

subsection \<open>A table without rows\<close>

lemma sum_list_all_zero: "(\<And>c. c \<in> set cs \<Longrightarrow> c = (0::real)) \<Longrightarrow> sum_list cs = 0"
  by (induction cs) auto

lemma entropy_of_vector_zero:
  assumes "cs \<noteq> []" and "\<And>c. c \<in> set cs \<Longrightarrow> c = 0"
  shows "np_mul (Num k)
     (entropy (map (\<lambda>c. np_div c (np_sum (map Num cs))) (map Num cs))) = NaN"
proof -
  have zero: "sum_list cs = 0"
    using assms(2) by (rule sum_list_all_zero)
  have norm: "map (\<lambda>c. np_div c (Num 0)) (map Num cs) = map (\<lambda>c. NaN) cs"
    using assms(2) by simp
  have mem: "NaN \<in> set (map (\<lambda>c. NaN) cs)"
    using assms(1) by (cases cs) simp_all
  have "entropy (map (\<lambda>c. NaN) cs) = NaN"
    unfolding entropy_def Let_def map_map comp_def
    by (simp add: np_sum_mem_NaN [OF mem])
  then show ?thesis
    unfolding np_sum_map_Num zero norm by simp
qed

lemma entropy_of_histogram_zero:
  assumes "concat h \<noteq> []" and "\<And>c. c \<in> set (concat h) \<Longrightarrow> c = 0"
  shows "entropy_of_histogram h = NaN"
  unfolding entropy_of_histogram_def Let_def
  using assms by (rule entropy_of_vector_zero)

lemma histogram2d_Nil: "histogram2d [] [] = replicate 10 (replicate 10 0)"
  by (simp add: histogram2d_def map_replicate_const)

lemma entropy_of_histogram_Nil: "entropy_of_histogram (histogram2d [] []) = NaN"
  by (rule entropy_of_histogram_zero) (simp_all add: histogram2d_Nil)

subsection \<open>The rows that every call drops\<close>

lemma drop_first_observations_Nil:
  "rows (dataframe self) = [] \<Longrightarrow> drop_first_observations self = Inl (IndexError RowLabel)"
  by (simp add: drop_first_observations_def row_labels_def)

lemma drop_first_observations_Cons:
  "rows (dataframe self) = r # rs \<Longrightarrow>
     drop_first_observations self =
       Inr (self\<lparr>dataframe := (dataframe self)\<lparr>rows := filter (\<lambda>row. fst row \<noteq> fst r) rs\<rparr>\<rparr>)"
  by (simp add: drop_first_observations_def row_labels_def drop_index_def)

lemma filter_other_labels:
  "l \<notin> fst ` set rs \<Longrightarrow> filter (\<lambda>row. fst row \<noteq> l) rs = rs"
  by (induction rs) auto

lemma drop_first_observations_frame:
  "drop_first_observations self = Inr self' \<Longrightarrow>
     ncols (dataframe self') = ncols (dataframe self) \<and> chain self' = chain self
     \<and> columns self' = columns self
     \<and> length (rows (dataframe self')) < length (rows (dataframe self))"
proof (cases "rows (dataframe self)")
  case Nil
  assume "drop_first_observations self = Inr self'"
  with Nil show ?thesis
    by (simp add: drop_first_observations_Nil)
next
  case (Cons r rs)
  assume "drop_first_observations self = Inr self'"
  with Cons have "self' =
      self\<lparr>dataframe := (dataframe self)\<lparr>rows := filter (\<lambda>row. fst row \<noteq> fst r) rs\<rparr>\<rparr>"
    by (simp add: drop_first_observations_Cons)
  moreover have "length (filter (\<lambda>row. fst row \<noteq> fst r) rs) < Suc (length rs)"
    by (rule le_imp_less_Suc) (rule length_filter_le)
  ultimately show ?thesis
    using Cons by simp
qed

lemma get_entropy_fst:
  "fst (get_entropy self xcol ycol) =
     (case drop_first_observations self of Inl e \<Rightarrow> self | Inr self' \<Rightarrow> self')"
  by (simp add: get_entropy_def split: sum.splits)

lemma get_entropy_fst_Cons:
  "rows (dataframe self) = r # rs \<Longrightarrow>
     fst (get_entropy self xcol ycol) =
       self\<lparr>dataframe := (dataframe self)\<lparr>rows := filter (\<lambda>row. fst row \<noteq> fst r) rs\<rparr>\<rparr>"
  by (simp add: get_entropy_fst drop_first_observations_Cons)

lemma get_entropy_no_row:
  "rows (dataframe self) = [] \<Longrightarrow>
     get_entropy self xcol ycol = (self, Inl (IndexError RowLabel))"
  by (simp add: get_entropy_def drop_first_observations_Nil)

lemma get_entropy_calls_Cons:
  "get_entropy_calls self ((xcol, ycol) # calls) =
     get_entropy_calls (fst (get_entropy self xcol ycol)) calls"
  by (simp add: get_entropy_calls_def)

lemma get_entropy_calls_distinct:
  "distinct (row_labels (dataframe self)) \<Longrightarrow>
   length calls \<le> length (rows (dataframe self)) \<Longrightarrow>
     get_entropy_calls self calls =
       self\<lparr>dataframe := (dataframe self)
              \<lparr>rows := drop (length calls) (rows (dataframe self))\<rparr>\<rparr>"
proof (induction calls arbitrary: self)
  case Nil
  then show ?case by (simp add: get_entropy_calls_def)
next
  case (Cons c calls)
  obtain xcol ycol where c: "c = (xcol, ycol)" by (cases c)
  from Cons.prems(2) obtain r rs where rs: "rows (dataframe self) = r # rs"
    by (cases "rows (dataframe self)") auto
  let ?self' = "self\<lparr>dataframe := (dataframe self)\<lparr>rows := rs\<rparr>\<rparr>"
  have other: "fst r \<notin> fst ` set rs" and rest: "distinct (map fst rs)"
    using Cons.prems(1) by (simp_all add: row_labels_def rs)
  have "fst (get_entropy self xcol ycol) = ?self'"
    by (simp add: get_entropy_fst_Cons [OF rs] filter_other_labels [OF other])
  then have "get_entropy_calls self (c # calls) = get_entropy_calls ?self' calls"
    by (simp add: c get_entropy_calls_Cons)
  also have "\<dots> = ?self'\<lparr>dataframe := (dataframe ?self')
      \<lparr>rows := drop (length calls) (rows (dataframe ?self'))\<rparr>\<rparr>"
    using Cons.prems(2) rs rest by (intro Cons.IH) (simp_all add: row_labels_def)
  finally show ?case
    by (simp add: rs)
qed

lemma get_entropy_calls_out_of_rows:
  "length (rows (dataframe self)) \<le> length calls \<Longrightarrow>
     rows (dataframe (get_entropy_calls self calls)) = []"
proof (induction calls arbitrary: self)
  case Nil
  then show ?case by (simp add: get_entropy_calls_def)
next
  case (Cons c calls)
  obtain xcol ycol where c: "c = (xcol, ycol)" by (cases c)
  show ?case
  proof (cases "rows (dataframe self)")
    case Nil
    then have "fst (get_entropy self xcol ycol) = self"
      by (simp add: get_entropy_no_row)
    then have "get_entropy_calls self (c # calls) = get_entropy_calls self calls"
      by (simp add: c get_entropy_calls_Cons)
    moreover have "rows (dataframe (get_entropy_calls self calls)) = []"
      using Nil by (intro Cons.IH) simp
    ultimately show ?thesis by simp
  next
    case rs: (Cons r rs)
    let ?self' = "self\<lparr>dataframe := (dataframe self)
        \<lparr>rows := filter (\<lambda>row. fst row \<noteq> fst r) rs\<rparr>\<rparr>"
    have "length (filter (\<lambda>row. fst row \<noteq> fst r) rs) \<le> length rs"
      by (rule length_filter_le)
    also have "length rs \<le> length calls"
      using Cons.prems rs by simp
    finally have "length (rows (dataframe ?self')) \<le> length calls"
      by simp
    then have "rows (dataframe (get_entropy_calls ?self' calls)) = []"
      by (rule Cons.IH)
    then show ?thesis
      by (simp add: c get_entropy_calls_Cons get_entropy_fst_Cons [OF rs])
  qed
qed

lemma range_index_labels: "map fst (range_index rs) = [0..<length rs]"
  by (simp add: range_index_def)

lemma range_index_rows: "map snd (range_index rs) = rs"
  by (simp add: range_index_def)

text \<open>
  C8. Taken as it stands, the claim fails in two ways. The drop of line 51 is by label,
  so on a table whose first two rows carry the same label one call removes two rows of
  three; and on a table with no row the call raises and removes nothing, so the table
  does not have one row fewer.
\<close>

theorem get_entropy_repeated_label_counterexample:
  "rows (dataframe repeated_label_run) = [(1, [1, 2]), (1, [3, 4]), (2, [5, 6])]
   \<and> rows (dataframe (fst (get_entropy repeated_label_run 0 1))) = [(2, [5, 6])]
   \<and> length (rows (dataframe (get_entropy_calls repeated_label_run [(0, 1)]))) + 1
       \<noteq> length (rows (dataframe repeated_label_run))
   \<and> rows (dataframe no_row_run) = []
   \<and> get_entropy no_row_run 0 1 = (no_row_run, Inl (IndexError RowLabel))
   \<and> length (rows (dataframe (get_entropy_calls no_row_run [(0, 1)]))) + 1
       \<noteq> length (rows (dataframe no_row_run))"
proof -
  have none: "rows (dataframe no_row_run) = []"
    by (simp add: no_row_run_def)
  have three: "rows (dataframe repeated_label_run) = [(1, [1, 2]), (1, [3, 4]), (2, [5, 6])]"
    by (simp add: repeated_label_run_def repeated_label_table_def)
  have "fst (get_entropy repeated_label_run 0 1) =
      repeated_label_run\<lparr>dataframe := (dataframe repeated_label_run)\<lparr>rows := [(2, [5, 6])]\<rparr>\<rparr>"
    by (simp add: get_entropy_fst_Cons [OF three])
  with none three show ?thesis
    by (simp add: get_entropy_calls_def get_entropy_no_row)
qed

text \<open>
  C8, as it holds. A call of \<^verbatim>\<open>get_entropy\<close> on a table with a row takes off the run's
  table, before anything else, every row that carries the label of the first row,
  whatever the columns asked for and whether or not the call then raises: the first row
  alone when no other row has its label, as under the default index of \<^verbatim>\<open>read_csv\<close>. On
  a table with no row the call raises \<^verbatim>\<open>IndexError\<close> and changes nothing. Nothing guards
  a repetition: after \<open>k\<close> calls on a table of at least \<open>k\<close> rows with pairwise distinct
  labels the first \<open>k\<close> rows are gone and the other rows, the number of columns, the
  chain and the schema are as before; after as many calls as the table has rows, or
  more, no row is left, whatever the labels.
\<close>

theorem get_entropy_drops_first_row:
  "(rows (dataframe self) = r # rs \<longrightarrow>
      fst (get_entropy self xcol ycol) =
        self\<lparr>dataframe := (dataframe self)\<lparr>rows := filter (\<lambda>row. fst row \<noteq> fst r) rs\<rparr>\<rparr>)
   \<and> (rows (dataframe self) = r # rs \<and> fst r \<notin> fst ` set rs \<longrightarrow>
        fst (get_entropy self xcol ycol) = self\<lparr>dataframe := (dataframe self)\<lparr>rows := rs\<rparr>\<rparr>)
   \<and> (rows (dataframe self) = [] \<longrightarrow>
        get_entropy self xcol ycol = (self, Inl (IndexError RowLabel)))
   \<and> (distinct (row_labels (dataframe self))
        \<and> length calls \<le> length (rows (dataframe self)) \<longrightarrow>
        get_entropy_calls self calls =
          self\<lparr>dataframe := (dataframe self)
                 \<lparr>rows := drop (length calls) (rows (dataframe self))\<rparr>\<rparr>
        \<and> length (rows (dataframe (get_entropy_calls self calls))) + length calls =
            length (rows (dataframe self)))
   \<and> (length (rows (dataframe self)) \<le> length calls \<longrightarrow>
        rows (dataframe (get_entropy_calls self calls)) = [])"
proof -
  have one: "rows (dataframe self) = r # rs \<longrightarrow>
      fst (get_entropy self xcol ycol) =
        self\<lparr>dataframe := (dataframe self)\<lparr>rows := filter (\<lambda>row. fst row \<noteq> fst r) rs\<rparr>\<rparr>"
    by (simp add: get_entropy_fst_Cons)
  have alone: "rows (dataframe self) = r # rs \<and> fst r \<notin> fst ` set rs \<longrightarrow>
      fst (get_entropy self xcol ycol) = self\<lparr>dataframe := (dataframe self)\<lparr>rows := rs\<rparr>\<rparr>"
    by (simp add: get_entropy_fst_Cons filter_other_labels)
  have none: "rows (dataframe self) = [] \<longrightarrow>
      get_entropy self xcol ycol = (self, Inl (IndexError RowLabel))"
    by (simp add: get_entropy_no_row)
  have many: "distinct (row_labels (dataframe self))
        \<and> length calls \<le> length (rows (dataframe self)) \<longrightarrow>
        get_entropy_calls self calls =
          self\<lparr>dataframe := (dataframe self)
                 \<lparr>rows := drop (length calls) (rows (dataframe self))\<rparr>\<rparr>
        \<and> length (rows (dataframe (get_entropy_calls self calls))) + length calls =
            length (rows (dataframe self))"
    by (simp add: get_entropy_calls_distinct)
  have out: "length (rows (dataframe self)) \<le> length calls \<longrightarrow>
      rows (dataframe (get_entropy_calls self calls)) = []"
    by (simp add: get_entropy_calls_out_of_rows)
  from one alone none many out show ?thesis
    by blast
qed

theorem get_entropy_drops_first_row_witness:
  "rows (dataframe \<lparr>dataframe = \<lparr>ncols = 2, rows = range_index [[1, 2], [3, 4], [5, 6]]\<rparr>,
                   chain = ''main chain'', columns = []\<rparr>)
       = (0, [1, 2]) # [(1, [3, 4]), (2, [5, 6])]
   \<and> fst (0 :: nat, [1, 2 :: real]) \<notin> fst ` set [(1, [3, 4]), (2, [5, 6 :: real])]
   \<and> distinct (row_labels (dataframe
        \<lparr>dataframe = \<lparr>ncols = 2, rows = range_index [[1, 2], [3, 4], [5, 6]]\<rparr>,
         chain = ''main chain'', columns = []\<rparr>))
   \<and> length [(0, 1), (5, 7) :: int \<times> int]
       \<le> length (rows (dataframe
            \<lparr>dataframe = \<lparr>ncols = 2, rows = range_index [[1, 2], [3, 4], [5, 6]]\<rparr>,
             chain = ''main chain'', columns = []\<rparr>))
   \<and> fst (get_entropy \<lparr>dataframe = \<lparr>ncols = 2, rows = range_index [[1, 2], [3, 4], [5, 6]]\<rparr>,
                        chain = ''main chain'', columns = []\<rparr> 0 1)
       = \<lparr>dataframe = \<lparr>ncols = 2, rows = [(1, [3, 4]), (2, [5, 6])]\<rparr>,
          chain = ''main chain'', columns = []\<rparr>
   \<and> get_entropy_calls \<lparr>dataframe = \<lparr>ncols = 2, rows = range_index [[1, 2], [3, 4], [5, 6]]\<rparr>,
                         chain = ''main chain'', columns = []\<rparr> [(0, 1), (5, 7)]
       = \<lparr>dataframe = \<lparr>ncols = 2, rows = [(2, [5, 6])]\<rparr>, chain = ''main chain'', columns = []\<rparr>
   \<and> rows (dataframe \<lparr>dataframe = \<lparr>ncols = 2, rows = []\<rparr>,
                      chain = ''main chain'', columns = []\<rparr>) = ([] :: (nat \<times> real list) list)
   \<and> get_entropy \<lparr>dataframe = \<lparr>ncols = 2, rows = ([] :: (nat \<times> real list) list)\<rparr>,
                   chain = ''main chain'', columns = []\<rparr> 0 1
       = (\<lparr>dataframe = \<lparr>ncols = 2, rows = []\<rparr>, chain = ''main chain'', columns = []\<rparr>,
          Inl (IndexError RowLabel))
   \<and> length (rows (dataframe repeated_label_run)) \<le> length [(0, 1), (0, 1), (0, 1) :: int \<times> int]
   \<and> rows (dataframe (get_entropy_calls repeated_label_run [(0, 1), (0, 1), (0, 1)])) = []"
proof -
  have index: "range_index [[1, 2], [3, 4], [5, 6]] = [(0, [1, 2]), (1, [3, 4]), (2, [5, 6])]"
    by (simp add: range_index_def upt_conv_Cons del: upt_Suc)
  note inst = get_entropy_drops_first_row
    [where self = "\<lparr>dataframe = \<lparr>ncols = 2, rows = range_index [[1, 2], [3, 4], [5, 6]]\<rparr>,
                    chain = ''main chain'', columns = []\<rparr>"
       and r = "(0, [1, 2])" and rs = "[(1, [3, 4]), (2, [5, 6])]" and xcol = 0 and ycol = 1
       and calls = "[(0, 1), (5, 7)]"]
  note none = get_entropy_drops_first_row
    [where self = "\<lparr>dataframe = \<lparr>ncols = 2, rows = ([] :: (nat \<times> real list) list)\<rparr>,
                    chain = ''main chain'', columns = []\<rparr>" and xcol = 0 and ycol = 1]
  note out = get_entropy_drops_first_row
    [where self = repeated_label_run and calls = "[(0, 1), (0, 1), (0, 1)]"]
  have three: "length (rows (dataframe repeated_label_run))
      \<le> length [(0, 1), (0, 1), (0, 1) :: int \<times> int]"
    by (simp add: repeated_label_run_def repeated_label_table_def)
  with out have "rows (dataframe (get_entropy_calls repeated_label_run [(0, 1), (0, 1), (0, 1)])) = []"
    by blast
  with three inst none show ?thesis
    by (simp add: index row_labels_def)
qed

lemma iloc_column_in_range:
  "- int (ncols df) \<le> col \<Longrightarrow> col < int (ncols df) \<Longrightarrow>
     iloc_column df col =
       Inr (map (\<lambda>r. snd r ! nat (if col < 0 then int (ncols df) + col else col)) (rows df))"
  by (simp add: iloc_column_def Let_def)

lemma get_entropy_no_row_left:
  assumes "drop_first_observations self = Inr self'" and "rows (dataframe self') = []"
    and "- int (ncols (dataframe self)) \<le> xcol" "xcol < int (ncols (dataframe self))"
    and "- int (ncols (dataframe self)) \<le> ycol" "ycol < int (ncols (dataframe self))"
  shows "get_entropy self xcol ycol = (self', Inr NaN)"
proof -
  have "ncols (dataframe self') = ncols (dataframe self)"
    using drop_first_observations_frame [OF assms(1)] by simp
  with assms show ?thesis
    by (simp add: get_entropy_def iloc_column_in_range
        correct_signs_def correct_signs_thres_def entropy_of_histogram_Nil)
qed

lemma get_entropy_one_row:
  assumes "rows (dataframe self) = [r]"
    and "- int (ncols (dataframe self)) \<le> xcol" "xcol < int (ncols (dataframe self))"
    and "- int (ncols (dataframe self)) \<le> ycol" "ycol < int (ncols (dataframe self))"
  shows "get_entropy self xcol ycol =
    (self\<lparr>dataframe := (dataframe self)\<lparr>rows := []\<rparr>\<rparr>, Inr NaN)"
  using assms(2-5)
  by (intro get_entropy_no_row_left) (simp_all add: drop_first_observations_Cons [OF assms(1)])

text \<open>
  C6, as the code has it. On a table that has a row before the call and none after the
  drop (a table of exactly one row, or one whose rows all carry the label of the first)
  and with columns in range the call raises nothing: the histogram of no points is all
  zero, the total is \<open>0\<close>, every bin becomes \<open>0 / 0\<close> and the entropy returned is NaN.
  The call raises only on a table that has no row before the call, and then it is the
  \<^verbatim>\<open>IndexError\<close> of \<^verbatim>\<open>drop_first_observations\<close>.
\<close>

theorem get_entropy_empty_table:
  "(rows (dataframe self) = [r]
      \<and> - int (ncols (dataframe self)) \<le> xcol \<and> xcol < int (ncols (dataframe self))
      \<and> - int (ncols (dataframe self)) \<le> ycol \<and> ycol < int (ncols (dataframe self)) \<longrightarrow>
      get_entropy self xcol ycol =
        (self\<lparr>dataframe := (dataframe self)\<lparr>rows := []\<rparr>\<rparr>, Inr NaN))
   \<and> (rows (dataframe self) = [] \<longrightarrow>
        get_entropy self xcol ycol = (self, Inl (IndexError RowLabel)))
   \<and> (drop_first_observations self = Inr self' \<and> rows (dataframe self') = []
      \<and> - int (ncols (dataframe self)) \<le> xcol \<and> xcol < int (ncols (dataframe self))
      \<and> - int (ncols (dataframe self)) \<le> ycol \<and> ycol < int (ncols (dataframe self)) \<longrightarrow>
      get_entropy self xcol ycol = (self', Inr NaN))"
  using get_entropy_one_row [of self r xcol ycol] get_entropy_no_row [of self xcol ycol]
    get_entropy_no_row_left [of self self' xcol ycol]
  by blast

theorem get_entropy_empty_table_witness:
  "rows (dataframe \<lparr>dataframe = \<lparr>ncols = 3, rows = [(0 :: nat, [10, 20, 30])]\<rparr>,
                   chain = ''side chain'', columns = []\<rparr>) = [(0, [10, 20, 30])]
   \<and> - int 3 \<le> (2 :: int) \<and> (2 :: int) < int 3 \<and> - int 3 \<le> (- 1 :: int) \<and> (- 1 :: int) < int 3
   \<and> get_entropy \<lparr>dataframe = \<lparr>ncols = 3, rows = [(0 :: nat, [10, 20, 30])]\<rparr>,
                   chain = ''side chain'', columns = []\<rparr> 2 (- 1)
       = (\<lparr>dataframe = \<lparr>ncols = 3, rows = []\<rparr>, chain = ''side chain'', columns = []\<rparr>,
          Inr NaN)
   \<and> rows (dataframe \<lparr>dataframe = \<lparr>ncols = 3, rows = []\<rparr>,
                      chain = ''side chain'', columns = []\<rparr>) = ([] :: (nat \<times> real list) list)
   \<and> get_entropy \<lparr>dataframe = \<lparr>ncols = 3, rows = ([] :: (nat \<times> real list) list)\<rparr>,
                   chain = ''side chain'', columns = []\<rparr> 2 (- 1)
       = (\<lparr>dataframe = \<lparr>ncols = 3, rows = []\<rparr>, chain = ''side chain'', columns = []\<rparr>,
          Inl (IndexError RowLabel))
   \<and> drop_first_observations
         \<lparr>dataframe = \<lparr>ncols = 3, rows = [(7 :: nat, [10, 20, 30]), (7, [40, 50, 60])]\<rparr>,
          chain = ''side chain'', columns = []\<rparr>
       = Inr \<lparr>dataframe = \<lparr>ncols = 3, rows = []\<rparr>, chain = ''side chain'', columns = []\<rparr>
   \<and> get_entropy
         \<lparr>dataframe = \<lparr>ncols = 3, rows = [(7 :: nat, [10, 20, 30]), (7, [40, 50, 60])]\<rparr>,
          chain = ''side chain'', columns = []\<rparr> 2 (- 1)
       = (\<lparr>dataframe = \<lparr>ncols = 3, rows = []\<rparr>, chain = ''side chain'', columns = []\<rparr>,
          Inr NaN)"
proof -
  have drop: "drop_first_observations
         \<lparr>dataframe = \<lparr>ncols = 3, rows = [(7 :: nat, [10, 20, 30]), (7, [40, 50, 60])]\<rparr>,
          chain = ''side chain'', columns = []\<rparr>
       = Inr \<lparr>dataframe = \<lparr>ncols = 3, rows = []\<rparr>, chain = ''side chain'', columns = []\<rparr>"
    by (simp add: drop_first_observations_def row_labels_def drop_index_def)
  note one = get_entropy_empty_table
      [where self = "\<lparr>dataframe = \<lparr>ncols = 3, rows = [(0 :: nat, [10, 20, 30])]\<rparr>,
                      chain = ''side chain'', columns = []\<rparr>"
         and r = "(0, [10, 20, 30])" and xcol = 2 and ycol = "- 1"]
  note none = get_entropy_empty_table
      [where self = "\<lparr>dataframe = \<lparr>ncols = 3, rows = ([] :: (nat \<times> real list) list)\<rparr>,
                      chain = ''side chain'', columns = []\<rparr>"
         and xcol = 2 and ycol = "- 1"]
  note same = get_entropy_empty_table
      [where self = "\<lparr>dataframe = \<lparr>ncols = 3,
                        rows = [(7 :: nat, [10, 20, 30]), (7, [40, 50, 60])]\<rparr>,
                      chain = ''side chain'', columns = []\<rparr>"
         and self' = "\<lparr>dataframe = \<lparr>ncols = 3, rows = []\<rparr>, chain = ''side chain'',
                        columns = []\<rparr>"
         and xcol = 2 and ycol = "- 1"]
  from one none same drop show ?thesis
    by simp
qed

text \<open>
  C6, as the specification has it, fails: this run has no row left after the drop, and
  the call returns NaN where an error is promised.
\<close>

theorem get_entropy_empty_counterexample:
  "rows (dataframe (fst (get_entropy
           \<lparr>dataframe = \<lparr>ncols = 2, rows = [(0 :: nat, [1, 2])]\<rparr>, chain = ''main chain'',
            columns = Experiment_columns ''main chain''\<rparr> 0 1))) = []
   \<and> snd (get_entropy
           \<lparr>dataframe = \<lparr>ncols = 2, rows = [(0 :: nat, [1, 2])]\<rparr>, chain = ''main chain'',
            columns = Experiment_columns ''main chain''\<rparr> 0 1) = Inr NaN"
  by (simp add: get_entropy_def drop_first_observations_def row_labels_def drop_index_def
      iloc_column_def correct_signs_def correct_signs_thres_def entropy_of_histogram_Nil)

subsection \<open>The histogram and its entropy\<close>

lemma outer_edges_bounds:
  assumes "a \<noteq> []" and "outer_edges a = (lo, hi)"
  shows "lo < hi" and "\<And>v. v \<in> set a \<Longrightarrow> lo \<le> v \<and> v \<le> hi"
proof -
  define m where "m = Min (set a)"
  define M where "M = Max (set a)"
  have le: "m \<le> M"
    unfolding m_def M_def using assms(1) by (intro Min_le Max_in) simp_all
  have oe: "(lo, hi) = (if m = M then (m - 1 / 2, M + 1 / 2) else (m, M))"
    using assms by (auto simp: outer_edges_def Let_def m_def M_def split: if_splits)
  show "lo < hi"
    using oe le by (cases "m = M") simp_all
  fix v assume "v \<in> set a"
  then have "m \<le> v" "v \<le> M"
    unfolding m_def M_def by simp_all
  then show "lo \<le> v \<and> v \<le> hi"
    using oe by (cases "m = M") simp_all
qed

lemma bin_number_range:
  assumes "a \<noteq> []" and "v \<in> set a"
  shows "bin_number (bin_edges a) v \<in> {1..<11}"
proof -
  obtain lo hi where oe: "outer_edges a = (lo, hi)"
    by (cases "outer_edges a")
  have lt: "lo < hi" and bounds: "lo \<le> v" "v \<le> hi"
    using outer_edges_bounds [OF assms(1) oe] assms(2) by auto
  define w where "w = (hi - lo) / 10"
  have w: "0 < w" using lt by (simp add: w_def)
  define edges where "edges = map (\<lambda>k. lo + real k * w) [0..<11]"
  have be: "bin_edges a = edges"
    by (simp add: bin_edges_def oe linspace_def edges_def w_def)
  have last: "last edges = hi"
    by (simp add: edges_def w_def last_map field_simps)
  have first: "edges = lo # tl edges"
    by (simp add: edges_def upt_conv_Cons del: upt_Suc)
  have len: "length edges = 11"
    by (simp add: edges_def)
  have ge1: "1 \<le> searchsorted_right edges v"
    using bounds(1) by (subst first) (simp add: searchsorted_right_def)
  have le11: "searchsorted_right edges v \<le> 11"
    unfolding searchsorted_right_def using length_filter_le [of _ edges] len by metis
  show ?thesis
  proof (cases "v = hi")
    case True
    have "\<And>e. e \<in> set edges \<Longrightarrow> e \<le> hi"
    proof -
      fix e assume "e \<in> set edges"
      then obtain k where k: "k < 11" "e = lo + real k * w"
        by (auto simp: edges_def)
      then have "real k * w \<le> 10 * w"
        using w by (intro mult_right_mono) simp_all
      then show "e \<le> hi" using k by (simp add: w_def)
    qed
    then have "filter (\<lambda>e. e \<le> v) edges = edges"
      using True by (simp add: filter_id_conv)
    then have "searchsorted_right edges v = 11"
      by (simp add: searchsorted_right_def len)
    then show ?thesis
      using True by (simp add: bin_number_def be last)
  next
    case False
    then have "v < hi" using bounds by simp
    have split: "edges = butlast edges @ [hi]"
      using last len by (metis append_butlast_last_id length_0_conv zero_neq_numeral)
    have "searchsorted_right edges v = length (filter (\<lambda>e. e \<le> v) (butlast edges))"
      using \<open>v < hi\<close> by (subst split) (simp add: searchsorted_right_def)
    also have "\<dots> \<le> length (butlast edges)"
      by (rule length_filter_le)
    also have "\<dots> = 10" by (simp add: len)
    finally have "searchsorted_right edges v \<le> 10" .
    then show ?thesis
      using False ge1 by (simp add: bin_number_def be last)
  qed
qed

lemma sum_list_concat: "sum_list (concat xss) = sum_list (map sum_list xss)"
  by (induction xss) simp_all

lemma sum_list_concat_grid:
  "sum_list (concat (map (\<lambda>i. map (\<lambda>j. real (f (i, j))) [1..<11]) [1..<11])) =
     real (sum f ({1..<11} \<times> {1..<11}))"
proof -
  have "sum_list (concat (map (\<lambda>i. map (\<lambda>j. real (f (i, j))) [1..<11]) [1..<11])) =
      (\<Sum>i = 1..<11. \<Sum>j = 1..<11. real (f (i, j)))"
    by (simp add: sum_list_concat comp_def interv_sum_list_conv_sum_set_nat del: upt_Suc)
  also have "\<dots> = (\<Sum>p\<in>{1..<11} \<times> {1..<11}. real (f p))"
    by (simp add: sum.cartesian_product case_prod_unfold)
  finally show ?thesis by simp
qed

lemma sum_histogram2d:
  assumes "length x = length y"
  shows "sum_list (concat (histogram2d x y)) = real (length x)"
proof -
  define Ncount where
    "Ncount = zip (map (bin_number (bin_edges x)) x) (map (bin_number (bin_edges y)) y)"
  have sub: "set Ncount \<subseteq> {1..<11} \<times> {1..<11}"
  proof
    fix p assume "p \<in> set Ncount"
    obtain a b where p: "p = (a, b)" by (cases p)
    with \<open>p \<in> set Ncount\<close> have ab: "(a, b) \<in> set Ncount" by simp
    have a: "a \<in> set (map (bin_number (bin_edges x)) x)"
      using ab unfolding Ncount_def by (rule set_zip_leftD)
    have b: "b \<in> set (map (bin_number (bin_edges y)) y)"
      using ab unfolding Ncount_def by (rule set_zip_rightD)
    from a have "x \<noteq> []" by auto
    with a have "a \<in> {1..<11}" using bin_number_range [of x] by auto
    moreover from b have "y \<noteq> []" by auto
    with b have "b \<in> {1..<11}" using bin_number_range [of y] by auto
    ultimately show "p \<in> {1..<11} \<times> {1..<11}" using p by simp
  qed
  have "sum_list (concat (histogram2d x y)) =
      real (sum (count_list Ncount) ({1..<11} \<times> {1..<11}))"
    unfolding histogram2d_def Let_def Ncount_def [symmetric]
    by (rule sum_list_concat_grid)
  also have "sum (count_list Ncount) ({1..<11} \<times> {1..<11}) = length Ncount"
    using sub by (intro sum_count_set) simp_all
  also have "\<dots> = length x"
    using assms by (simp add: Ncount_def)
  finally show ?thesis .
qed

lemma histogram2d_nonneg: "c \<in> set (concat (histogram2d x y)) \<Longrightarrow> 0 \<le> c"
  by (auto simp: histogram2d_def Let_def)


lemma np_sum_entr_Num:
  assumes "\<And>p. p \<in> set ps \<Longrightarrow> 0 \<le> p"
  shows "np_sum (map (\<lambda>p. entr (np_div p (Num 1))) (map Num ps)) = Num (shannon_entropy ps)"
proof -
  let ?g = "\<lambda>p :: real. - (if p = 0 then 0 else p * ln p)"
  have eq: "map (\<lambda>p. entr (np_div p (Num 1))) (map Num ps) = map Num (map ?g ps)"
    using assms by (auto simp: less_le)
  have "np_sum (map (\<lambda>p. entr (np_div p (Num 1))) (map Num ps)) = Num (sum_list (map ?g ps))"
    unfolding eq by (rule np_sum_map_Num)
  also have "sum_list (map ?g ps) = shannon_entropy ps"
    unfolding shannon_entropy_def by (rule uminus_sum_list_map [symmetric, unfolded comp_def])
  finally show ?thesis .
qed

lemma sum_list_normalise: "sum_list cs \<noteq> 0 \<Longrightarrow> sum_list (normalise cs) = 1"
proof -
  assume nz: "sum_list cs \<noteq> 0"
  have "sum_list (normalise cs) = sum_list (map (\<lambda>c. c * inverse (sum_list cs)) cs)"
    by (simp add: normalise_def divide_inverse)
  also have "\<dots> = sum_list cs * inverse (sum_list cs)"
    by (simp add: sum_list_mult_const)
  finally show ?thesis using nz by simp
qed

lemma entropy_of_histogram_pmf:
  assumes nonneg: "\<And>c. c \<in> set (concat h) \<Longrightarrow> 0 \<le> c" and pos: "0 < sum_list (concat h)"
  shows "entropy_of_histogram h =
    Num (8314 / 1000 * shannon_entropy (normalise (concat h)))"
proof -
  define cs where "cs = concat h"
  define T where "T = sum_list cs"
  have T: "0 < T" using pos by (simp add: T_def cs_def)
  have norm: "map (\<lambda>c. np_div c (Num T)) (map Num cs) = map Num (normalise cs)"
    using T by (simp add: normalise_def T_def)
  have one: "sum_list (normalise cs) = 1"
    using T by (intro sum_list_normalise) (simp add: T_def)
  have nn: "\<And>p. p \<in> set (normalise cs) \<Longrightarrow> 0 \<le> p"
    using nonneg T by (auto simp: normalise_def cs_def [symmetric] T_def [symmetric])
  have "entropy (map Num (normalise cs)) = Num (shannon_entropy (normalise cs))"
    unfolding entropy_def Let_def np_sum_map_Num one using nn by (rule np_sum_entr_Num)
  then show ?thesis
    unfolding entropy_of_histogram_def Let_def cs_def [symmetric] np_sum_map_Num
      T_def [symmetric] norm
    by simp
qed

lemma shannon_entropy_uniform:
  assumes "0 < c" and "0 < n"
  shows "shannon_entropy (normalise (replicate n c)) = ln (real n)"
proof -
  have nz: "real n * c \<noteq> 0" using assms by simp
  have "normalise (replicate n c) = replicate n (1 / real n)"
    using assms by (simp add: normalise_def sum_list_replicate)
  then have "shannon_entropy (normalise (replicate n c)) = - (real n * (1 / real n * ln (1 / real n)))"
    using assms by (simp add: shannon_entropy_def sum_list_replicate map_replicate)
  also have "\<dots> = - ln (1 / real n)"
    using assms by simp
  also have "\<dots> = ln (real n)"
    using assms by (simp add: ln_div)
  finally show ?thesis .
qed

lemma entropy_of_histogram_uniform:
  assumes "concat h = replicate 100 c" and "0 < c"
  shows "entropy_of_histogram h = Num (8314 / 1000 * ln 100)"
proof -
  have "entropy_of_histogram h =
      Num (8314 / 1000 * shannon_entropy (normalise (replicate 100 c)))"
    using assms by (subst entropy_of_histogram_pmf) (simp_all add: sum_list_replicate)
  then show ?thesis
    using shannon_entropy_uniform [OF assms(2), of 100] by simp
qed

lemma length_iloc_column: "iloc_column df col = Inr x \<Longrightarrow> length x = length (rows df)"
  by (auto simp: iloc_column_def Let_def split: if_splits)

lemma length_correct_signs: "length (correct_signs x) = length x"
  by (simp add: correct_signs_def correct_signs_thres_scan length_sign_scan)

lemma get_entropy_value:
  assumes drop: "drop_first_observations self = Inr self'"
    and ne: "rows (dataframe self') \<noteq> []"
    and x: "iloc_column (dataframe self') xcol = Inr x"
    and y: "iloc_column (dataframe self') ycol = Inr y"
  shows "get_entropy self xcol ycol =
    (self',
     Inr (Num (8314 / 1000 * shannon_entropy (normalise (concat
        (histogram2d (correct_signs x) (correct_signs y)))))))"
proof -
  have len: "length (correct_signs x) = length (correct_signs y)"
    using length_iloc_column [OF x] length_iloc_column [OF y] by (simp add: length_correct_signs)
  have "sum_list (concat (histogram2d (correct_signs x) (correct_signs y))) =
      real (length (rows (dataframe self')))"
    using sum_histogram2d [OF len] length_iloc_column [OF x] by (simp add: length_correct_signs)
  then have pos: "0 < sum_list (concat (histogram2d (correct_signs x) (correct_signs y)))"
    using ne by simp
  have "entropy_of_histogram (histogram2d (correct_signs x) (correct_signs y)) =
      Num (8314 / 1000 * shannon_entropy (normalise (concat
        (histogram2d (correct_signs x) (correct_signs y)))))"
    using histogram2d_nonneg pos by (rule entropy_of_histogram_pmf)
  then show ?thesis
    using drop x y by (simp add: get_entropy_def)
qed

subsection \<open>The uniform run\<close>

























section \<open>Properties of the column schema\<close>

lemma nth_concat_rows:
  assumes "\<And>i. i < n \<Longrightarrow> length (f i) = k" and "m < n" and "r < k"
  shows "concat (map f [0..<n]) ! (m * k + r) = f m ! r"
  using assms
proof (induction n)
  case 0
  then show ?case by simp
next
  case (Suc n)
  have eq: "map (\<lambda>i. length (f i)) [0..<n] = map (\<lambda>i. k) [0..<n]"
    using Suc.prems(1) by (intro map_cong) simp_all
  have len: "length (concat (map f [0..<n])) = n * k"
    unfolding length_concat map_map comp_def eq by (simp add: sum_list_triv)
  show ?case
  proof (cases "m < n")
    case True
    then have "m * k + r < n * k"
      using Suc.prems(3) by (metis add.commute mult_Suc less_le_trans add_less_cancel_left mult_le_mono1 Suc_leI)
    then show ?thesis
      using Suc True by (simp add: nth_append len)
  next
    case False
    with Suc.prems have "m = n" by simp
    then show ?thesis
      using Suc.prems by (simp add: nth_append len)
  qed
qed

lemma length_main_chain_columns: "length (Experiment_columns ''main chain'') = 100"
  by (simp add: Experiment_columns_def energy_columns_def angles_main_chain_def length_concat comp_def sum_list_triv del: upt_Suc)

lemma length_side_chain_columns: "length (Experiment_columns ''side chain'') = 77"
  by (simp add: Experiment_columns_def energy_columns_def angles_side_chain_def length_concat comp_def sum_list_triv del: upt_Suc)

lemma main_chain_column:
  assumes "mer < 23" and "r < 4"
  shows "Experiment_columns ''main chain'' ! (8 + (mer * 4 + r)) = angle_column (angles_main_chain ! r) mer"
proof -
  have "concat (map (\<lambda>mer. map (\<lambda>angle. angle_column angle mer) angles_main_chain) [0..<23]) ! (mer * 4 + r)
      = map (\<lambda>angle. angle_column angle mer) angles_main_chain ! r"
    using assms by (intro nth_concat_rows) (simp_all add: angles_main_chain_def)
  moreover have "length angles_main_chain = 4"
    by (simp add: angles_main_chain_def)
  ultimately show ?thesis
    using assms by (simp add: Experiment_columns_def nth_append energy_columns_def)
qed

lemma side_chain_column:
  assumes "mer < 23" and "r < 3"
  shows "Experiment_columns ''side chain'' ! (8 + (r * 23 + mer)) = angle_column (angles_side_chain ! r) mer"
proof -
  have "concat (map (\<lambda>r. map (\<lambda>mer. angle_column (angles_side_chain ! r) mer) [0..<23]) [0..<3]) ! (r * 23 + mer)
      = map (\<lambda>mer. angle_column (angles_side_chain ! r) mer) [0..<23] ! mer"
    using assms by (intro nth_concat_rows) simp_all
  moreover have "map (\<lambda>angle. map (\<lambda>mer. angle_column angle mer) [0..<23]) angles_side_chain
     = map (\<lambda>r. map (\<lambda>mer. angle_column (angles_side_chain ! r) mer) [0..<23]) [0..<3]"
    by (simp add: angles_side_chain_def upt_conv_Cons del: upt_Suc)
  ultimately show ?thesis
    using assms by (simp add: Experiment_columns_def nth_append energy_columns_def del: upt_Suc)
qed

lemma distinct_main_chain_descriptions:
  "distinct (map description (Experiment_columns ''main chain''))"
  by code_simp

lemma distinct_side_chain_descriptions:
  "distinct (map description (Experiment_columns ''side chain''))"
  by code_simp

lemma unique_description:
  assumes "distinct (map description cols)" and "j < length cols"
  shows "\<forall>i<length cols. (description (cols ! i) = description (cols ! j)) = (i = j)"
proof (intro allI impI)
  fix i assume "i < length cols"
  with assms show "(description (cols ! i) = description (cols ! j)) = (i = j)"
    using nth_eq_iff_index_eq [of "map description cols" i j] by simp
qed

lemma main_chain_round_trip:
  assumes r: "r < 4" and m: "m < 23"
    and base: "base_col < length (Experiment_columns ''main chain'')"
    and first: "description (Experiment_columns ''main chain'' ! base_col) =
      mer_description (angles_main_chain ! r) 0"
  shows "base_col = 8 + r"
    and "base_col + m * 4 < length (Experiment_columns ''main chain'')"
    and "\<forall>i<length (Experiment_columns ''main chain'').
      (description (Experiment_columns ''main chain'' ! i) =
         mer_description (angles_main_chain ! r) m) = (i = base_col + m * 4)"
proof -
  let ?cols = "Experiment_columns ''main chain''"
  have d0: "description (?cols ! (8 + r)) = mer_description (angles_main_chain ! r) 0"
    using main_chain_column [of 0 r] r by (simp add: angle_column_def)
  have "8 + r < length ?cols"
    using r by (simp add: length_main_chain_columns)
  from unique_description [OF distinct_main_chain_descriptions this, rule_format, OF base]
  show b: "base_col = 8 + r"
    using first d0 by simp
  show lt: "base_col + m * 4 < length ?cols"
    using r m by (simp add: b length_main_chain_columns)
  have idx: "base_col + m * 4 = 8 + (m * 4 + r)"
    by (simp add: b)
  have dm: "description (?cols ! (base_col + m * 4)) = mer_description (angles_main_chain ! r) m"
    unfolding idx main_chain_column [OF m r] by (simp add: angle_column_def)
  from unique_description [OF distinct_main_chain_descriptions lt]
  show "\<forall>i<length ?cols. (description (?cols ! i) =
      mer_description (angles_main_chain ! r) m) = (i = base_col + m * 4)"
    by (simp only: dm)
qed

lemma side_chain_round_trip:
  assumes r: "r < 3" and m: "m < 23"
    and base: "base_col < length (Experiment_columns ''side chain'')"
    and first: "description (Experiment_columns ''side chain'' ! base_col) =
      mer_description (angles_side_chain ! r) 0"
  shows "base_col = 8 + r * 23"
    and "base_col + m * 1 < length (Experiment_columns ''side chain'')"
    and "\<forall>i<length (Experiment_columns ''side chain'').
      (description (Experiment_columns ''side chain'' ! i) =
         mer_description (angles_side_chain ! r) m) = (i = base_col + m * 1)"
proof -
  let ?cols = "Experiment_columns ''side chain''"
  have d0: "description (?cols ! (8 + r * 23)) = mer_description (angles_side_chain ! r) 0"
    using side_chain_column [of 0 r] r by (simp add: angle_column_def)
  have "8 + r * 23 < length ?cols"
    using r by (simp add: length_side_chain_columns)
  from unique_description [OF distinct_side_chain_descriptions this, rule_format, OF base]
  show b: "base_col = 8 + r * 23"
    using first d0 by simp
  show lt: "base_col + m * 1 < length ?cols"
    using r m by (simp add: b length_side_chain_columns)
  have idx: "base_col + m * 1 = 8 + (r * 23 + m)"
    by (simp add: b)
  have dm: "description (?cols ! (base_col + m * 1)) = mer_description (angles_side_chain ! r) m"
    unfolding idx side_chain_column [OF m r] by (simp add: angle_column_def)
  from unique_description [OF distinct_side_chain_descriptions lt]
  show "\<forall>i<length ?cols. (description (?cols ! i) =
      mer_description (angles_side_chain ! r) m) = (i = base_col + m * 1)"
    by (simp only: dm)
qed

text \<open>
  C4. Take an angle role (the \<open>r\<close>-th of its layout), a mer index \<open>m\<close> of \<open>0 .. 22\<close> and
  the column \<open>base_col\<close> whose description is that role's entry for mer 1
  (\<open>"{role} mers 1, 2"\<close>). With the offset 4 of \<^verbatim>\<open>'analysis'\<close> in the main-chain schema,
  and with the offset 1 of \<^verbatim>\<open>'sidechain'\<close> in the side-chain schema,
  \<open>base_col + m * offset\<close> is a column of the schema, and it is the one and only column
  described as \<open>"{role} mers {m+1}, {m+2}"\<close>.
\<close>

theorem mer_offset_round_trip:
  "magic_numbers ''analysis'' = Some 4 \<and> magic_numbers ''sidechain'' = Some 1
   \<and> (r < length angles_main_chain \<and> m < 23
        \<and> base_col < length (Experiment_columns ''main chain'')
        \<and> description (Experiment_columns ''main chain'' ! base_col) =
            mer_description (angles_main_chain ! r) 0 \<longrightarrow>
        base_col + m * 4 < length (Experiment_columns ''main chain'')
        \<and> (\<forall>i<length (Experiment_columns ''main chain'').
              (description (Experiment_columns ''main chain'' ! i) =
                 mer_description (angles_main_chain ! r) m) = (i = base_col + m * 4)))
   \<and> (r < length angles_side_chain \<and> m < 23
        \<and> base_col < length (Experiment_columns ''side chain'')
        \<and> description (Experiment_columns ''side chain'' ! base_col) =
            mer_description (angles_side_chain ! r) 0 \<longrightarrow>
        base_col + m * 1 < length (Experiment_columns ''side chain'')
        \<and> (\<forall>i<length (Experiment_columns ''side chain'').
              (description (Experiment_columns ''side chain'' ! i) =
                 mer_description (angles_side_chain ! r) m) = (i = base_col + m * 1)))"
proof -
  have magic: "magic_numbers ''analysis'' = Some 4 \<and> magic_numbers ''sidechain'' = Some 1"
    by (simp add: magic_numbers_def)
  have main: "base_col + m * 4 < length (Experiment_columns ''main chain'')
      \<and> (\<forall>i<length (Experiment_columns ''main chain'').
            (description (Experiment_columns ''main chain'' ! i) =
               mer_description (angles_main_chain ! r) m) = (i = base_col + m * 4))"
    if "r < length angles_main_chain" "m < 23"
      "base_col < length (Experiment_columns ''main chain'')"
      "description (Experiment_columns ''main chain'' ! base_col) =
         mer_description (angles_main_chain ! r) 0"
  proof -
    from that(1) have "r < 4" by (simp add: angles_main_chain_def)
    from main_chain_round_trip(2,3) [OF this that(2,3,4)] show ?thesis by blast
  qed
  have side: "base_col + m * 1 < length (Experiment_columns ''side chain'')
      \<and> (\<forall>i<length (Experiment_columns ''side chain'').
            (description (Experiment_columns ''side chain'' ! i) =
               mer_description (angles_side_chain ! r) m) = (i = base_col + m * 1))"
    if "r < length angles_side_chain" "m < 23"
      "base_col < length (Experiment_columns ''side chain'')"
      "description (Experiment_columns ''side chain'' ! base_col) =
         mer_description (angles_side_chain ! r) 0"
  proof -
    from that(1) have "r < 3" by (simp add: angles_side_chain_def)
    from side_chain_round_trip(2,3) [OF this that(2,3,4)] show ?thesis by blast
  qed
  from magic main side show ?thesis by blast
qed

theorem mer_offset_round_trip_witness:
  "1 < length angles_main_chain \<and> (22 :: nat) < 23
   \<and> 9 < length (Experiment_columns ''main chain'')
   \<and> description (Experiment_columns ''main chain'' ! 9) = mer_description psi14 0
   \<and> 9 + 22 * 4 < length (Experiment_columns ''main chain'')
   \<and> description (Experiment_columns ''main chain'' ! (9 + 22 * 4)) = mer_description psi14 22
   \<and> 2 < length angles_side_chain
   \<and> 54 < length (Experiment_columns ''side chain'')
   \<and> description (Experiment_columns ''side chain'' ! 54) = mer_description delta_angle 0
   \<and> 54 + 22 * 1 < length (Experiment_columns ''side chain'')
   \<and> description (Experiment_columns ''side chain'' ! (54 + 22 * 1)) = mer_description delta_angle 22"
proof -
  have m22: "(22 :: nat) < 23"
    by simp
  have r1: "1 < length angles_main_chain" "angles_main_chain ! 1 = psi14"
    by (simp_all add: angles_main_chain_def)
  have b1: "9 < length (Experiment_columns ''main chain'')"
    by (simp add: length_main_chain_columns)
  have d1: "description (Experiment_columns ''main chain'' ! 9) =
      mer_description (angles_main_chain ! 1) 0"
    using main_chain_column [of 0 1] by (simp add: angle_column_def)
  have m1: "9 + 22 * 4 < length (Experiment_columns ''main chain'')
      \<and> (\<forall>i<length (Experiment_columns ''main chain'').
            (description (Experiment_columns ''main chain'' ! i) =
               mer_description (angles_main_chain ! 1) 22) = (i = 9 + 22 * 4))"
    using mer_offset_round_trip [of 1 22 9] m22 r1(1) b1 d1 by blast
  then have e1: "description (Experiment_columns ''main chain'' ! (9 + 22 * 4)) =
      mer_description (angles_main_chain ! 1) 22"
    by blast
  have r2: "2 < length angles_side_chain" "angles_side_chain ! 2 = delta_angle"
    by (simp_all add: angles_side_chain_def)
  have b2: "54 < length (Experiment_columns ''side chain'')"
    by (simp add: length_side_chain_columns)
  have d2: "description (Experiment_columns ''side chain'' ! 54) =
      mer_description (angles_side_chain ! 2) 0"
    using side_chain_column [of 0 2] by (simp add: angle_column_def)
  have m2: "54 + 22 * 1 < length (Experiment_columns ''side chain'')
      \<and> (\<forall>i<length (Experiment_columns ''side chain'').
            (description (Experiment_columns ''side chain'' ! i) =
               mer_description (angles_side_chain ! 2) 22) = (i = 54 + 22 * 1))"
    using mer_offset_round_trip [of 2 22 54] m22 r2(1) b2 d2 by blast
  then have e2: "description (Experiment_columns ''side chain'' ! (54 + 22 * 1)) =
      mer_description (angles_side_chain ! 2) 22"
    by blast
  from r1 b1 d1 m1 e1 r2 b2 d2 m2 e2 show ?thesis
    by simp
qed

subsection \<open>The chain of a run\<close>

lemma Experiment_init_chain:
  "read_csv filepath = Inr df \<Longrightarrow>
     Experiment_init read_csv filepath =
       Inr \<lparr>dataframe = df,
            chain = (if sublist ''sidechain'' filepath then ''side chain'' else ''main chain''),
            columns = Experiment_columns
              (if sublist ''sidechain'' filepath then ''side chain'' else ''main chain'')\<rparr>"
  by (simp add: Experiment_init_def chain_of_filepath_def)

lemma SetOfExperiments_init_assert:
  "chain_name \<noteq> ''analysis'' \<Longrightarrow> chain_name \<noteq> ''sidechain'' \<Longrightarrow>
     SetOfExperiments_init read_csv data_path experiment_prefix ion_name chain_name n =
       Inl (AssertionError (''Incorrect chain type: '' @ chain_name))"
  by (simp add: SetOfExperiments_init_def)

lemma run_7_matches_no_convention:
  "\<not> sublist ''sidechain'' ''run_7.tab''" "\<not> sublist ''analysis'' ''run_7.tab''"
  by code_simp+

text \<open>
  C5, as the code has it. The constructor of a run never rejects a path for its chain:
  a path that contains \<^verbatim>\<open>sidechain\<close> gets the side-chain schema and every other path,
  also one that matches neither convention, gets the main-chain schema; the only error
  of the constructor is the one of reading the file. It is the constructor of the set
  that rejects a chain type other than \<^verbatim>\<open>analysis\<close> and \<^verbatim>\<open>sidechain\<close>, by its assertion.
\<close>

theorem chain_classification_defaults:
  "(read_csv filepath = Inr df \<longrightarrow>
      Experiment_init read_csv filepath =
        Inr \<lparr>dataframe = df,
             chain = (if sublist ''sidechain'' filepath then ''side chain'' else ''main chain''),
             columns = Experiment_columns
               (if sublist ''sidechain'' filepath then ''side chain'' else ''main chain'')\<rparr>)
   \<and> (read_csv filepath = Inl e \<longrightarrow> Experiment_init read_csv filepath = Inl e)
   \<and> (chain_name \<noteq> ''analysis'' \<and> chain_name \<noteq> ''sidechain'' \<longrightarrow>
        SetOfExperiments_init read_csv data_path experiment_prefix ion_name chain_name n =
          Inl (AssertionError (''Incorrect chain type: '' @ chain_name)))"
  by (simp add: Experiment_init_chain SetOfExperiments_init_assert)
    (simp add: Experiment_init_def)

theorem chain_classification_defaults_witness:
  "read_two_rows ''data/run_7.tab'' = Inr two_row_table
   \<and> Experiment_init read_two_rows ''data/run_7.tab'' =
       Inr \<lparr>dataframe = two_row_table, chain = ''main chain'',
            columns = Experiment_columns ''main chain''\<rparr>
   \<and> read_no_file ''data/run_7.tab'' = Inl (FileNotFoundError ''data/run_7.tab'')
   \<and> Experiment_init read_no_file ''data/run_7.tab'' =
       Inl (FileNotFoundError ''data/run_7.tab'')
   \<and> ''mainchain'' \<noteq> ''analysis'' \<and> ''mainchain'' \<noteq> ''sidechain''
   \<and> SetOfExperiments_init read_two_rows ''data'' ''run'' ''Ca'' ''mainchain'' 2 =
       Inl (AssertionError ''Incorrect chain type: mainchain'')"
proof -
  have no: "\<not> sublist ''sidechain'' ''data/run_7.tab''"
    by code_simp
  have "Experiment_init read_two_rows ''data/run_7.tab'' =
       Inr \<lparr>dataframe = two_row_table, chain = ''main chain'',
            columns = Experiment_columns ''main chain''\<rparr>"
    using chain_classification_defaults
      [where read_csv = read_two_rows and filepath = "''data/run_7.tab''" and df = two_row_table]
      no
    by (simp add: read_two_rows_def)
  moreover have "Experiment_init read_no_file ''data/run_7.tab'' =
       Inl (FileNotFoundError ''data/run_7.tab'')"
    using chain_classification_defaults
      [where read_csv = read_no_file and filepath = "''data/run_7.tab''"
         and e = "FileNotFoundError ''data/run_7.tab''"]
    by (simp add: read_no_file_def)
  moreover have "SetOfExperiments_init read_two_rows ''data'' ''run'' ''Ca'' ''mainchain'' 2 =
       Inl (AssertionError ''Incorrect chain type: mainchain'')"
    using chain_classification_defaults
      [where read_csv = read_two_rows and chain_name = "''mainchain''"]
    by simp
  ultimately show ?thesis
    by (simp add: read_two_rows_def read_no_file_def)
qed

text \<open>
  C5, as the specification has it, fails: this path matches neither convention, the
  file is read, and the run is built as a main-chain run with the 100 columns of the
  main-chain schema.
\<close>

theorem unknown_chain_counterexample:
  "\<not> sublist ''sidechain'' ''run_7.tab'' \<and> \<not> sublist ''analysis'' ''run_7.tab''
   \<and> Experiment_init read_two_rows ''run_7.tab'' =
       Inr \<lparr>dataframe = two_row_table, chain = ''main chain'',
            columns = Experiment_columns ''main chain''\<rparr>
   \<and> length (Experiment_columns ''main chain'') = 100"
  using run_7_matches_no_convention
  by (simp add: Experiment_init_def chain_of_filepath_def read_two_rows_def
      length_main_chain_columns)

section \<open>Properties of the set of runs\<close>



lemma get_entropies_length:
  "get_entropies es xcol ycol = (es', Inr vs) \<Longrightarrow> length vs = length es"
  by (induction es arbitrary: es' vs) (auto split: prod.splits sum.splits)

lemma get_entropies_length_fst:
  "length (fst (get_entropies es xcol ycol)) = length es"
  by (induction es) (auto split: prod.splits sum.splits)


lemma hist_of_entropy_frame:
  "hist_of_entropy self xcol ycol None = (self', r) \<Longrightarrow>
     length (experiments self') = length (experiments self) \<and> magic_number self' = magic_number self"
  using get_entropies_length_fst [of "experiments self" xcol ycol]
  by (auto simp: hist_of_entropy_def split: prod.splits sum.splits)

lemma hist_of_entropy_length:
  "hist_of_entropy self xcol ycol None = (self', Inr vs) \<Longrightarrow> length vs = length (experiments self)"
  by (auto simp: hist_of_entropy_def split: prod.splits sum.splits dest: get_entropies_length)











subsection \<open>The set of two runs\<close>





lemma hist_one_point: "concat (histogram2d [1] [2]) = replicate 55 0 @ 1 # replicate 44 0"
proof -
  have x: "bin_edges [1] = [1/2, 6/10, 7/10, 8/10, 9/10, 1, 11/10, 12/10, 13/10, 14/10, 15/10]"
    by (simp add: bin_edges_def outer_edges_def linspace_def upt_conv_Cons del: upt_Suc)
  have y: "bin_edges [2] = [3/2, 16/10, 17/10, 18/10, 19/10, 2, 21/10, 22/10, 23/10, 24/10, 25/10]"
    by (simp add: bin_edges_def outer_edges_def linspace_def upt_conv_Cons del: upt_Suc)
  show ?thesis
    unfolding histogram2d_def x y Let_def
    by (simp add: bin_number_def searchsorted_right_def upt_conv_Cons numeral_eq_Suc del: upt_Suc)
qed

lemma shannon_one_point: "shannon_entropy (normalise (replicate 55 0 @ 1 # replicate 44 0)) = 0"
  by (simp add: shannon_entropy_def normalise_def sum_list_replicate)

lemma get_entropy_two_row_run: "get_entropy two_row_run 0 1 = (one_row_run, Inr (Num 0))"
proof -
  have cs: "correct_signs [1] = [1]" "correct_signs [2] = [2]"
    by (simp_all add: correct_signs_def correct_signs_thres_def)
  have drop: "drop_first_observations two_row_run = Inr one_row_run"
    by (simp add: drop_first_observations_def row_labels_def drop_index_def two_row_run_def
        one_row_run_def two_row_table_def)
  have "get_entropy two_row_run 0 1 =
    (one_row_run,
     Inr (Num (8314 / 1000 * shannon_entropy (normalise (concat
        (histogram2d (correct_signs [1]) (correct_signs [2])))))))"
    using drop by (rule get_entropy_value) (simp_all add: one_row_run_def iloc_column_def)
  then show ?thesis
    by (simp add: cs hist_one_point shannon_one_point)
qed

lemma hist_two_runs:
  "hist_of_entropy two_runs 0 1 None = (two_runs_after, Inr [Num 0, Num 0])"
  by (simp add: hist_of_entropy_def two_runs_def two_runs_after_def get_entropy_two_row_run)


lemma labels_two_runs:
  "column_description two_runs_after 0 = Inr ''Time''"
  "column_description two_runs_after 1 = Inr ''Total energy of the system''"
  by (simp_all add: column_description_def two_runs_after_def two_runs_def one_row_run_def
      py_index_def Experiment_columns_def energy_columns_def)

subsection \<open>Realisation mode\<close>



subsection \<open>Percentile mode\<close>

lemma percentiles_loop_by_mer:
  "percentiles_loop self xcol ycol mers (a, b, c) =
     (case entropies_by_mer self xcol ycol mers of
        (self', Inl err) \<Rightarrow> (self', Inl err)
      | (self', Inr ess) \<Rightarrow>
          (self', Inr (a @ map np_median ess, b @ map (\<lambda>es. np_percentile es 5) ess,
                       c @ map (\<lambda>es. np_percentile es 95) ess)))"
proof (induction mers arbitrary: self a b c)
  case Nil
  then show ?case by simp
next
  case (Cons mer mers)
  then show ?case
    by (auto split: prod.splits sum.splits)
qed

lemma entropies_by_mer_lengths:
  "entropies_by_mer self xcol ycol mers = (self', Inr ess) \<Longrightarrow>
     length ess = length mers
     \<and> length (experiments self') = length (experiments self)
     \<and> (\<forall>es\<in>set ess. length es = length (experiments self))"
proof (induction mers arbitrary: self ess)
  case Nil
  then show ?case by simp
next
  case (Cons mer mers)
  from Cons.prems obtain self1 es rest where
    h: "hist_of_entropy self (xcol + int (magic_number self * mer))
          (ycol + int (magic_number self * mer)) None = (self1, Inr es)"
    and r: "entropies_by_mer self1 xcol ycol mers = (self', Inr rest)"
    and ess: "ess = es # rest"
    by (auto split: prod.splits sum.splits)
  from Cons.IH [OF r] hist_of_entropy_frame [OF h] hist_of_entropy_length [OF h] ess
  show ?case by simp
qed

lemma percentiles_value:
  assumes "entropy_distribution_percentiles self xcol ycol no_mers = (self', Inr v)"
  shows "\<exists>ess. entropies_by_mer self xcol ycol [0..<nat no_mers] = (self', Inr ess)
    \<and> percentiles_loop self xcol ycol [0..<nat no_mers] ([], [], []) =
        (self', Inr (map np_median ess, map (\<lambda>es. np_percentile es 5) ess,
                     map (\<lambda>es. np_percentile es 95) ess))
    \<and> v = PyList (map PyFloat (map np_median ess))"
  using assms
  by (auto simp: entropy_distribution_percentiles_def percentiles_loop_by_mer
      split: prod.splits sum.splits)

lemma np_insort_Num: "np_insort (Num x) (map Num ys) = map Num (insort x ys)"
  by (induction ys) simp_all

lemma np_sort_Num: "np_sort (map Num rs) = map Num (sort rs)"
proof (induction rs)
  case Nil
  then show ?case by (simp add: np_sort_def)
next
  case (Cons r rs)
  then have "np_sort (map Num (r # rs)) = np_insort (Num r) (map Num (sort rs))"
    by (simp add: np_sort_def)
  then show ?case
    by (simp add: np_insort_Num)
qed

lemma np_lerp_Num: "np_lerp (Num a) (Num b) t = Num (a + (b - a) * t)"
  by (simp add: np_lerp_def np_sub_def Let_def algebra_simps)

lemma NaN_notin_Num: "NaN \<notin> set (map Num rs)"
  by auto

lemma np_percentile_linear:
  assumes ne: "rs \<noteq> []" and q: "0 \<le> q" "q \<le> 100"
  shows "np_percentile (map Num rs) q = Num (linear_percentile rs q)"
proof -
  define n where "n = length rs"
  define s where "s = sort rs"
  define vi where "vi = real (n - 1) * (q / 100)"
  have n: "0 < n" using ne by (simp add: n_def)
  have ls: "length s = n" by (simp add: s_def n_def)
  have vi0: "0 \<le> vi" using q by (simp add: vi_def)
  have vile: "vi \<le> real (n - 1)"
  proof -
    have "real (n - 1) * (q / 100) \<le> real (n - 1) * 1"
      using q by (intro mult_left_mono) simp_all
    then show ?thesis by (simp add: vi_def)
  qed
  show ?thesis
  proof (cases "real (n - 1) \<le> vi")
    case True
    with vile have eq: "vi = real (n - 1)" by simp
    have lo: "nat \<lfloor>vi\<rfloor> = n - 1" by (simp add: eq)
    have spec: "linear_percentile rs q = s ! (n - 1)"
      unfolding linear_percentile_def Let_def n_def [symmetric] s_def [symmetric]
        vi_def [symmetric] lo
      by simp
    have "s \<noteq> []"
      using n ls by auto
    then have "last (map Num s) = Num (last s)"
      by (simp add: last_map)
    also have "last s = s ! (n - 1)"
      using \<open>s \<noteq> []\<close> ls by (simp add: last_conv_nth)
    finally have "last (map Num s) = Num (s ! (n - 1))" .
    then have "np_percentile (map Num rs) q = Num (s ! (n - 1))"
      unfolding np_percentile_def np_sort_Num Let_def length_map n_def [symmetric]
        s_def [symmetric] vi_def [symmetric]
      using True ne by (simp add: np_lerp_Num NaN_notin_Num del: set_map)
    with spec show ?thesis by simp
  next
    case False
    then have lt: "vi < real (n - 1)" by simp
    define p where "p = nat \<lfloor>vi\<rfloor>"
    have rp: "real p = of_int \<lfloor>vi\<rfloor>" using vi0 by (simp add: p_def)
    have "real p \<le> vi" by (simp add: rp)
    with lt have "real p < real (n - 1)" by linarith
    then have p: "p + 1 \<le> n - 1" by simp
    then have hi: "min (p + 1) (n - 1) = p + 1" by simp
    have spec: "linear_percentile rs q = s ! p + (s ! (p + 1) - s ! p) * (vi - real p)"
      unfolding linear_percentile_def Let_def n_def [symmetric] s_def [symmetric]
        vi_def [symmetric] p_def [symmetric] hi
      by (rule refl)
    have idx: "p < length s" "p + 1 < length s"
      using p n ls by simp_all
    have "np_percentile (map Num rs) q =
        np_lerp (map Num s ! p) (map Num s ! (p + 1)) (vi - real p)"
      unfolding np_percentile_def np_sort_Num Let_def length_map n_def [symmetric]
        s_def [symmetric] vi_def [symmetric] p_def [symmetric]
      using False ne by (simp add: NaN_notin_Num del: set_map)
    also have "\<dots> = Num (s ! p + (s ! (p + 1) - s ! p) * (vi - real p))"
      using idx by (simp add: np_lerp_Num)
    finally show ?thesis using spec by simp
  qed
qed

lemma np_median_linear:
  assumes ne: "rs \<noteq> []"
  shows "np_median (map Num rs) = Num (linear_percentile rs 50)"
proof -
  define n where "n = length rs"
  define s where "s = sort rs"
  have n: "0 < n" using ne by (simp add: n_def)
  have ls: "length s = n" by (simp add: s_def n_def)
  show ?thesis
  proof (cases "odd n")
    case True
    then obtain k where k: "n = 2 * k + 1" by (auto elim: oddE)
    have pos: "real (n - 1) * (50 / 100) = real k" by (simp add: k)
    have spec: "linear_percentile rs 50 = s ! k"
      unfolding linear_percentile_def Let_def n_def [symmetric] s_def [symmetric] pos
      by simp
    have "np_median (map Num rs) = map Num s ! k"
      unfolding np_median_def np_sort_Num Let_def length_map n_def [symmetric]
        s_def [symmetric]
      using True ne by (simp add: NaN_notin_Num k del: set_map)
    also have "\<dots> = Num (s ! k)"
      using ls k by simp
    finally show ?thesis using spec by simp
  next
    case False
    then obtain k where k: "n = 2 * k" by (auto elim: evenE)
    with n have k1: "1 \<le> k" by simp
    have pos: "real (n - 1) * (50 / 100) = real (k - 1) + 1 / 2"
      using k1 by (simp add: k of_nat_diff field_simps)
    have lo: "nat \<lfloor>real (n - 1) * (50 / 100)\<rfloor> = k - 1"
      unfolding pos by linarith
    have hi: "min (k - 1 + 1) (n - 1) = k"
      using k1 k by simp
    have spec: "linear_percentile rs 50 = s ! (k - 1) + (s ! k - s ! (k - 1)) * (1 / 2)"
      unfolding linear_percentile_def Let_def n_def [symmetric] s_def [symmetric] lo
      unfolding pos hi
      by simp
    have "np_median (map Num rs) =
        np_div (np_add (map Num s ! (k - 1)) (map Num s ! k)) (Num 2)"
      unfolding np_median_def np_sort_Num Let_def length_map n_def [symmetric]
        s_def [symmetric]
      using False ne by (simp add: NaN_notin_Num k del: set_map)
    also have "\<dots> = Num ((s ! (k - 1) + s ! k) / 2)"
      using ls k k1 by simp
    finally show ?thesis using spec by (simp add: field_simps)
  qed
qed

lemma by_mer_two_runs:
  "entropies_by_mer two_runs 0 1 [0..<nat 1] = (two_runs_after, Inr [[Num 0, Num 0]])"
  using hist_two_runs by (simp add: two_runs_def)

lemma median_zeros: "np_median [Num 0, Num 0] = Num 0"
  by (simp add: np_median_def np_sort_def)

lemma percentile_zeros: "np_percentile [Num 0, Num 0] 5 = Num 0" "np_percentile [Num 0, Num 0] 95 = Num 0"
  by (simp_all add: np_percentile_def np_sort_def np_lerp_Num)

lemma percentiles_two_runs:
  "entropy_distribution_percentiles two_runs 0 1 1 =
     (two_runs_after, Inr (PyList [PyFloat (Num 0)]))"
  using by_mer_two_runs labels_two_runs
  by (simp add: entropy_distribution_percentiles_def percentiles_loop_by_mer median_zeros)

text \<open>
  C7, as the code has it. Whenever the call in percentile mode raises nothing, its value
  is the list of the medians only, one for each mer \<open>0 .. N - 1\<close> in order, where the
  entropies of mer \<open>m\<close> are those of the runs at the columns \<open>xcol + m * magic_number\<close>
  and \<open>ycol + m * magic_number\<close>, one for each run. The loop builds the list of the 5th
  and the list of the 95th percentiles next to it, for the plot; they are not part of
  the value returned. On numbers, the median and the percentiles are those of linear
  interpolation.
\<close>

theorem percentile_mode_returns_medians:
  assumes "entropy_distribution_percentiles self xcol ycol no_mers = (self', Inr v)"
  shows "(\<exists>ess. entropies_by_mer self xcol ycol [0..<nat no_mers] = (self', Inr ess)
      \<and> length ess = nat no_mers
      \<and> (\<forall>es\<in>set ess. length es = length (experiments self))
      \<and> percentiles_loop self xcol ycol [0..<nat no_mers] ([], [], []) =
          (self', Inr (map np_median ess, map (\<lambda>es. np_percentile es 5) ess,
                       map (\<lambda>es. np_percentile es 95) ess))
      \<and> v = PyList (map PyFloat (map np_median ess)))
    \<and> (rs \<noteq> [] \<longrightarrow>
          np_median (map Num rs) = Num (linear_percentile rs 50)
          \<and> np_percentile (map Num rs) 5 = Num (linear_percentile rs 5)
          \<and> np_percentile (map Num rs) 95 = Num (linear_percentile rs 95))"
proof -
  from percentiles_value [OF assms] obtain ess where
    ess: "entropies_by_mer self xcol ycol [0..<nat no_mers] = (self', Inr ess)"
    and loop: "percentiles_loop self xcol ycol [0..<nat no_mers] ([], [], []) =
        (self', Inr (map np_median ess, map (\<lambda>es. np_percentile es 5) ess,
                     map (\<lambda>es. np_percentile es 95) ess))"
    and v: "v = PyList (map PyFloat (map np_median ess))"
    by blast
  from entropies_by_mer_lengths [OF ess] have
    "length ess = nat no_mers" "\<forall>es\<in>set ess. length es = length (experiments self)"
    by simp_all
  with ess loop v have first: "\<exists>ess. entropies_by_mer self xcol ycol [0..<nat no_mers] = (self', Inr ess)
      \<and> length ess = nat no_mers
      \<and> (\<forall>es\<in>set ess. length es = length (experiments self))
      \<and> percentiles_loop self xcol ycol [0..<nat no_mers] ([], [], []) =
          (self', Inr (map np_median ess, map (\<lambda>es. np_percentile es 5) ess,
                       map (\<lambda>es. np_percentile es 95) ess))
      \<and> v = PyList (map PyFloat (map np_median ess))"
    by blast
  have "np_median (map Num rs) = Num (linear_percentile rs 50)
      \<and> np_percentile (map Num rs) 5 = Num (linear_percentile rs 5)
      \<and> np_percentile (map Num rs) 95 = Num (linear_percentile rs 95)" if "rs \<noteq> []"
    using that by (simp add: np_median_linear np_percentile_linear)
  with first show ?thesis by blast
qed

theorem percentile_mode_returns_medians_witness:
  "entropy_distribution_percentiles two_runs 0 1 1 =
     (two_runs_after, Inr (PyList [PyFloat (Num 0)]))
   \<and> entropies_by_mer two_runs 0 1 [0..<nat 1] = (two_runs_after, Inr [[Num 0, Num 0]])
   \<and> length [[Num 0, Num 0]] = nat 1
   \<and> percentiles_loop two_runs 0 1 [0..<nat 1] ([], [], []) =
       (two_runs_after, Inr ([Num 0], [Num 0], [Num 0]))
   \<and> [0, 0] \<noteq> ([] :: real list)
   \<and> np_median (map Num [0, 0]) = Num (linear_percentile [0, 0] 50)
   \<and> np_percentile (map Num [0, 0]) 5 = Num (linear_percentile [0, 0] 5)
   \<and> np_percentile (map Num [0, 0]) 95 = Num (linear_percentile [0, 0] 95)"
proof -
  note inst = percentile_mode_returns_medians [OF percentiles_two_runs, of "[0, 0]"]
  from inst obtain ess where
    "entropies_by_mer two_runs 0 1 [0..<nat 1] = (two_runs_after, Inr ess)"
    and loop: "percentiles_loop two_runs 0 1 [0..<nat 1] ([], [], []) =
        (two_runs_after, Inr (map np_median ess, map (\<lambda>es. np_percentile es 5) ess,
                     map (\<lambda>es. np_percentile es 95) ess))"
    by blast
  with by_mer_two_runs have "ess = [[Num 0, Num 0]]"
    by simp
  with loop have l: "percentiles_loop two_runs 0 1 [0..<nat 1] ([], [], []) =
       (two_runs_after, Inr ([Num 0], [Num 0], [Num 0]))"
    by (simp add: median_zeros percentile_zeros)
  have ne: "[0, 0] \<noteq> ([] :: real list)"
    by simp
  with inst have "np_median (map Num [0, 0]) = Num (linear_percentile [0, 0] 50)
      \<and> np_percentile (map Num [0, 0]) 5 = Num (linear_percentile [0, 0] 5)
      \<and> np_percentile (map Num [0, 0]) 95 = Num (linear_percentile [0, 0] 95)"
    by blast
  with percentiles_two_runs by_mer_two_runs l ne show ?thesis
    by simp
qed

text \<open>
  C7, as the specification has it, fails: for this set of two runs and one mer the call
  returns the list of the one median; the two lists of percentiles that the loop has
  built are not returned with it.
\<close>

theorem percentile_mode_return_counterexample:
  "snd (entropy_distribution_percentiles two_runs 0 1 1) = Inr (PyList [PyFloat (Num 0)])
   \<and> snd (percentiles_loop two_runs 0 1 [0..<nat 1] ([], [], [])) =
       Inr ([Num 0], [Num 0], [Num 0])
   \<and> snd (entropy_distribution_percentiles two_runs 0 1 1) \<noteq>
       Inr (PyTuple [PyList [PyFloat (Num 0)], PyList [PyFloat (Num 0)],
                     PyList [PyFloat (Num 0)]])"
  using by_mer_two_runs
  by (simp add: percentiles_two_runs percentiles_loop_by_mer median_zeros percentile_zeros)

end
